theory Spec2Isabelle
  imports Main
begin

section \<open>JavaScript values used by the framework\<close>

text \<open>
  Snowflakes, permission names and module paths are JavaScript strings. A value that may be
  \<^verbatim>\<open>undefined\<close> is an \<open>option\<close>. The tests \<^verbatim>\<open>if (x)\<close>, \<^verbatim>\<open>!x\<close>, \<^verbatim>\<open>x && y\<close> and
  \<^verbatim>\<open>x || d\<close> of the source go through JavaScript truthiness: \<^verbatim>\<open>undefined\<close>, the empty
  string, \<^verbatim>\<open>false\<close> and \<^verbatim>\<open>0\<close> are falsy, every array and object is truthy.
\<close>

type_synonym Snowflake = string
type_synonym PermissionString = string

definition truthy_string :: "string option \<Rightarrow> bool" where
  "truthy_string s = (case s of None \<Rightarrow> False | Some v \<Rightarrow> v \<noteq> [])"

definition truthy_boolean :: "bool option \<Rightarrow> bool" where
  "truthy_boolean b = (case b of None \<Rightarrow> False | Some v \<Rightarrow> v)"

datatype error = Error string | ReferenceError string | TypeError string

subsection \<open>Collection\<close>

text \<open>
  \<^verbatim>\<open>Collection\<close> extends the JavaScript \<^verbatim>\<open>Map\<close>: keys are unique, iteration follows insertion
  order, \<^verbatim>\<open>set\<close> on a key already present replaces the value where it stands, \<^verbatim>\<open>delete\<close> on
  an absent key does nothing. It is an association list in insertion order.
\<close>

type_synonym ('k, 'v) Collection = "('k \<times> 'v) list"

fun Collection_get :: "('k, 'v) Collection \<Rightarrow> 'k \<Rightarrow> 'v option" where
  "Collection_get [] k = None"
| "Collection_get ((k', v) # es) k = (if k' = k then Some v else Collection_get es k)"

fun Collection_set :: "'k \<Rightarrow> 'v \<Rightarrow> ('k, 'v) Collection \<Rightarrow> ('k, 'v) Collection" where
  "Collection_set k v [] = [(k, v)]"
| "Collection_set k v ((k', v') # es) =
     (if k' = k then (k, v) # es else (k', v') # Collection_set k v es)"

fun Collection_delete :: "'k \<Rightarrow> ('k, 'v) Collection \<Rightarrow> ('k, 'v) Collection" where
  "Collection_delete k [] = []"
| "Collection_delete k ((k', v') # es) =
     (if k' = k then Collection_delete k es else (k', v') # Collection_delete k es)"

section \<open>Command (structures/Command)\<close>

text \<open>
  The option schemas of a slash command and the argument schemas of a message command are
  carried through without being read; each stands here for its serialised form.
\<close>

datatype ApplicationCommandOptionData = ApplicationCommandOption string
datatype MessageCommandOptionData = MessageCommandOption string

datatype CommandType = SLASH_COMMAND | CONTEXT_MENU_USER | CONTEXT_MENU_MESSAGE | MESSAGE_COMMAND

datatype ChannelScope = GUILD | DM

text \<open>
  \<^verbatim>\<open>CommandData\<close>, the object a command class hands to the constructor. Every field but the
  name may be left out. The cooldown is a number of seconds.
\<close>

record CommandData =
  data_name :: string
  data_description :: "string option"
  data_type :: "CommandType option"
  data_defaultPermission :: "bool option"
  data_options :: "ApplicationCommandOptionData list option"
  data_args :: "MessageCommandOptionData list option"
  data_category :: "string option"
  data_channel :: "ChannelScope option"
  data_cooldown :: "int option"
  data_adminsOnly :: "bool option"
  data_userPermissions :: "PermissionString list option"
  data_clientPermissions :: "PermissionString list option"
  data_aliases :: "string list option"

text \<open>
  The fields of a \<^verbatim>\<open>Command\<close>, with \<^verbatim>\<open>path\<close> from \<^verbatim>\<open>BaseStructure\<close>. The \<^verbatim>\<open>client\<close> field is a
  reference to the one client and is passed to the operations instead.
\<close>

record Command =
  path :: "string option"
  name :: string
  description :: "string option"
  type :: CommandType
  defaultPermission :: "bool option"
  options :: "ApplicationCommandOptionData list option"
  args :: "MessageCommandOptionData list option"
  category :: string
  channel :: "ChannelScope option"
  cooldown :: int
  adminsOnly :: bool
  userPermissions :: "PermissionString list"
  clientPermissions :: "PermissionString list"
  aliases :: "string list option"
  cooldowns :: "(string, (string, int) Collection) Collection"

definition isType :: "CommandType \<Rightarrow> CommandType list \<Rightarrow> bool" where
  "isType this_type types = (if this_type \<in> set types then True else False)"

text \<open>
  The constructor. \<^verbatim>\<open>super(client)\<close> passes no path, so a constructed command has none until a
  loader writes one. \<^verbatim>\<open>x || d\<close> yields \<open>d\<close> for a falsy \<open>x\<close>: on strings and numbers the falsy
  values are \<^verbatim>\<open>undefined\<close> and the default itself, on arrays only \<^verbatim>\<open>undefined\<close>.
\<close>

definition Command_constructor :: "CommandData \<Rightarrow> Command" where
  "Command_constructor d =
     (let t = (case data_type d of None \<Rightarrow> MESSAGE_COMMAND | Some ty \<Rightarrow> ty) in
      \<lparr> path = None,
        name = data_name d,
        description = Some (case data_description d of None \<Rightarrow> [] | Some s \<Rightarrow> s),
        type = t,
        defaultPermission =
          (if isType t [SLASH_COMMAND, CONTEXT_MENU_USER, CONTEXT_MENU_MESSAGE]
           then data_defaultPermission d else None),
        options = (if isType t [SLASH_COMMAND] then data_options d else None),
        args = (if isType t [MESSAGE_COMMAND] then data_args d else None),
        category = (case data_category d of None \<Rightarrow> [] | Some s \<Rightarrow> s),
        channel = data_channel d,
        cooldown = (case data_cooldown d of None \<Rightarrow> 0 | Some n \<Rightarrow> if n = 0 then 0 else n),
        adminsOnly = (case data_adminsOnly d of None \<Rightarrow> False | Some b \<Rightarrow> b),
        userPermissions = (case data_userPermissions d of None \<Rightarrow> [] | Some ps \<Rightarrow> ps),
        clientPermissions = (case data_clientPermissions d of None \<Rightarrow> [] | Some ps \<Rightarrow> ps),
        aliases = (if isType t [MESSAGE_COMMAND] then data_aliases d else Some []),
        cooldowns = [] \<rparr>)"

section \<open>CommandsManager\<close>

record CommandsManager =
  directory :: string
  guildId :: "Snowflake option"
  prefix :: "string option"
  applicationPermissions :: "bool option"
  commands :: "(string, Command) Collection option"

datatype ApplicationCommandType = CHAT_INPUT | USER | MESSAGE

definition renameCommandType :: "CommandType \<Rightarrow> ApplicationCommandType option" where
  "renameCommandType ty =
     (if ty = SLASH_COMMAND then Some CHAT_INPUT
      else if ty = CONTEXT_MENU_MESSAGE then Some MESSAGE
      else if ty = CONTEXT_MENU_USER then Some ApplicationCommandType.USER
      else None)"

text \<open>
  \<^verbatim>\<open>ApplicationCommandData\<close>, the object sent to the platform. A context menu entry is built
  without \<^verbatim>\<open>description\<close> and \<^verbatim>\<open>options\<close>: both are \<open>None\<close> there.
\<close>

record ApplicationCommandData =
  acd_type :: ApplicationCommandType
  acd_name :: string
  acd_description :: "string option"
  acd_options :: "ApplicationCommandOptionData list option"
  acd_defaultPermission :: "bool option"

text \<open>The body of the \<^verbatim>\<open>for\<close> loop of \<^verbatim>\<open>getData\<close> over a collection, pushing onto \<open>data\<close>.\<close>

fun getData_loop ::
  "CommandsManager \<Rightarrow> (string, Command) Collection \<Rightarrow> ApplicationCommandData list
     \<Rightarrow> ApplicationCommandData list" where
  "getData_loop this [] data = data"
| "getData_loop this ((k, cmd) # rest) data =
     (if type cmd = MESSAGE_COMMAND then getData_loop this rest data
      else case renameCommandType (type cmd) of
        None \<Rightarrow> getData_loop this rest data
      | Some newType \<Rightarrow>
          if type cmd = SLASH_COMMAND then
            getData_loop this rest (data @
              [\<lparr> acd_type = newType, acd_name = name cmd,
                 acd_description = description cmd, acd_options = options cmd,
                 acd_defaultPermission =
                   (if truthy_boolean (applicationPermissions this) \<and> truthy_string (guildId this)
                       \<and> length (userPermissions cmd) > 0
                    then Some False else defaultPermission cmd) \<rparr>])
          else if type cmd = CONTEXT_MENU_MESSAGE \<or> type cmd = CONTEXT_MENU_USER then
            getData_loop this rest (data @
              [\<lparr> acd_type = newType, acd_name = name cmd,
                 acd_description = None, acd_options = None,
                 acd_defaultPermission =
                   (if truthy_boolean (applicationPermissions this) \<and> truthy_string (guildId this)
                       \<and> length (userPermissions cmd) > 0
                    then Some False else defaultPermission cmd) \<rparr>])
          else getData_loop this rest data)"

text \<open>The \<^verbatim>\<open>else\<close> branch of \<^verbatim>\<open>getData\<close>, for one command; \<open>None\<close> is \<^verbatim>\<open>undefined\<close>.\<close>

definition getData_command :: "CommandsManager \<Rightarrow> Command \<Rightarrow> ApplicationCommandData option" where
  "getData_command this cmd =
     (if type cmd = MESSAGE_COMMAND then None
      else case renameCommandType (type cmd) of
        None \<Rightarrow> None
      | Some newType \<Rightarrow>
          if type cmd = SLASH_COMMAND then
            Some \<lparr> acd_type = newType, acd_name = name cmd,
                   acd_description = description cmd, acd_options = options cmd,
                   acd_defaultPermission =
                     (if truthy_boolean (applicationPermissions this) \<and> truthy_string (guildId this)
                         \<and> length (userPermissions cmd) > 0
                      then Some False else defaultPermission cmd) \<rparr>
          else if type cmd = CONTEXT_MENU_MESSAGE \<or> type cmd = CONTEXT_MENU_USER then
            Some \<lparr> acd_type = newType, acd_name = name cmd,
                   acd_description = None, acd_options = None,
                   acd_defaultPermission =
                     (if truthy_boolean (applicationPermissions this) \<and> truthy_string (guildId this)
                         \<and> length (userPermissions cmd) > 0
                      then Some False else defaultPermission cmd) \<rparr>
          else None)"

text \<open>
  The argument of \<^verbatim>\<open>getData\<close> is a collection, one command or \<^verbatim>\<open>undefined\<close>; the default
  parameter replaces \<^verbatim>\<open>undefined\<close> by \<^verbatim>\<open>this.commands\<close>. The result is a list, one object or
  \<^verbatim>\<open>undefined\<close>.
\<close>

datatype getData_argument =
    ArgUndefined
  | ArgCollection "(string, Command) Collection"
  | ArgCommand Command

datatype getData_result =
    DataList "ApplicationCommandData list"
  | DataOne ApplicationCommandData
  | DataUndefined

definition getData :: "CommandsManager \<Rightarrow> getData_argument \<Rightarrow> error + getData_result" where
  "getData this arg =
     (let cmds = (case arg of
                    ArgUndefined \<Rightarrow>
                      (case commands this of None \<Rightarrow> ArgUndefined | Some c \<Rightarrow> ArgCollection c)
                  | _ \<Rightarrow> arg)
      in case cmds of
        ArgUndefined \<Rightarrow> Inl (Error ''Commands not found'')
      | ArgCollection c \<Rightarrow> Inr (DataList (getData_loop this c []))
      | ArgCommand cmd \<Rightarrow>
          (case getData_command this cmd of None \<Rightarrow> Inr DataUndefined | Some d \<Rightarrow> Inr (DataOne d)))"

section \<open>The client and the platform\<close>

text \<open>
  An event instance, as far as the handlers read it: its name (the key of the collection, which a
  class may leave \<^verbatim>\<open>undefined\<close>), the path a loader writes on it, and \<^verbatim>\<open>once\<close>.
\<close>

record Event =
  event_name :: "string option"
  event_path :: "string option"
  event_once :: bool

text \<open>
  The platform objects the manager reads: roles with the permission flags they grant, guilds
  with their role cache, the commands the platform has registered. The two bulk calls that
  reach the platform, \<^verbatim>\<open>application.commands.set\<close> and \<^verbatim>\<open>guild.commands.permissions.set\<close>,
  are recorded in a trace; what the platform answers is a field of the object called, so a
  rejected call is a value too.
\<close>

record Role =
  role_id :: Snowflake
  role_permissions :: "PermissionString list"

text \<open>
  Modelled from the spec: \<^verbatim>\<open>Permissions.has\<close> belongs to the platform library and is not among
  the sources. The spec reads the test as "the role's granted-permission bit-set is a superset
  of the required permissions".
\<close>

definition Permissions_has :: "PermissionString list \<Rightarrow> PermissionString list \<Rightarrow> bool" where
  "Permissions_has granted required = (set required \<subseteq> set granted)"

text \<open>
  The kind of a permission entry. Its \<open>USER\<close> is not the command type \<open>USER\<close> of a context
  menu, which is written \<open>ApplicationCommandType.USER\<close> from here on.
\<close>

datatype ApplicationCommandPermissionType = ROLE | USER

record ApplicationCommandPermissionData =
  apd_id :: Snowflake
  apd_type :: ApplicationCommandPermissionType
  apd_permission :: bool

record GuildApplicationCommandPermissionData =
  gapd_id :: Snowflake
  gapd_permissions :: "ApplicationCommandPermissionData list"

record ApplicationCommand =
  ac_id :: Snowflake
  ac_name :: string

record Guild =
  roles_cache :: "(Snowflake, Role) Collection"
  permissions_set :: "GuildApplicationCommandPermissionData list \<Rightarrow> error option"

record ClientApplication =
  commands_cache :: "(Snowflake, ApplicationCommand) Collection"
  commands_set ::
    "ApplicationCommandData list \<Rightarrow> Snowflake option
       \<Rightarrow> error + (Snowflake, ApplicationCommand) Collection"

text \<open>
  \<open>collections_commands\<close> is \<^verbatim>\<open>client.collections.commands\<close> and \<open>events\<close> is \<^verbatim>\<open>client.events\<close>.
  \<open>ready_emitted\<close> says whether the client emits \<^verbatim>\<open>ready\<close> after a listener is attached.
  \<^verbatim>\<open>awaitReady\<close> attaches a listener and resolves when it fires: with no later \<^verbatim>\<open>ready\<close> the
  promise never settles, which is \<open>None\<close>.
\<close>

record ShewenyClient =
  admins :: "Snowflake list"
  collections_commands :: "(string, Command) Collection option"
  events :: "(string, Event) Collection"
  application :: "ClientApplication option"
  guilds_cache :: "(Snowflake, Guild) Collection"
  ready_emitted :: bool

definition awaitReady :: "ShewenyClient \<Rightarrow> bool option" where
  "awaitReady client = (if ready_emitted client then Some True else None)"

datatype RemoteCall =
    is_ApplicationCommandsSet: ApplicationCommandsSet "ApplicationCommandData list" "Snowflake option"
  | GuildPermissionsSet Snowflake "GuildApplicationCommandPermissionData list"

subsection \<open>registerPermissions\<close>

text \<open>
  \<^verbatim>\<open>getRoles\<close>: \<^verbatim>\<open>null\<close> and \<^verbatim>\<open>undefined\<close> are both \<open>None\<close>. The command comes from
  \<^verbatim>\<open>commandsCollection.get(appCommand.name)!\<close>; when no local command has that name, reading
  \<^verbatim>\<open>userPermissions\<close> of \<^verbatim>\<open>undefined\<close> throws.
\<close>

definition getRoles ::
  "Guild option \<Rightarrow> Command option \<Rightarrow> error + (Snowflake, Role) Collection option" where
  "getRoles guild command =
     (case command of
        None \<Rightarrow> Inl (TypeError ''Cannot read properties of undefined'')
      | Some cmd \<Rightarrow>
          if length (userPermissions cmd) = 0 then Inr None
          else Inr (case guild of
                      None \<Rightarrow> None
                    | Some g \<Rightarrow>
                        Some (filter (\<lambda>(k, r). Permissions_has (role_permissions r) (userPermissions cmd))
                                (roles_cache g))))"

fun fullPermissions_loop ::
  "ShewenyClient \<Rightarrow> Guild option \<Rightarrow> (string, Command) Collection
     \<Rightarrow> (Snowflake, ApplicationCommand) Collection
     \<Rightarrow> GuildApplicationCommandPermissionData list
     \<Rightarrow> error + GuildApplicationCommandPermissionData list" where
  "fullPermissions_loop client guild commandsCollection [] fullPermissions = Inr fullPermissions"
| "fullPermissions_loop client guild commandsCollection ((k, appCommand) # rest) fullPermissions =
     (case getRoles guild (Collection_get commandsCollection (ac_name appCommand)) of
        Inl e \<Rightarrow> Inl e
      | Inr roles \<Rightarrow>
          let permissions =
                (case roles of
                   None \<Rightarrow> []
                 | Some rs \<Rightarrow>
                     if length rs \<noteq> 0
                     then map (\<lambda>(k, role).
                            \<lparr> apd_id = role_id role, apd_type = ROLE, apd_permission = True \<rparr>) rs
                     else []);
              permissions =
                (if length (admins client) \<noteq> 0
                 then permissions @
                      map (\<lambda>userId.
                        \<lparr> apd_id = userId, apd_type = USER, apd_permission = True \<rparr>) (admins client)
                 else permissions)
          in fullPermissions_loop client guild commandsCollection rest
               (fullPermissions @ [\<lparr> gapd_id = ac_id appCommand, gapd_permissions = permissions \<rparr>]))"

text \<open>The part of \<^verbatim>\<open>registerPermissions\<close> that follows the argument checks, for one guild id.\<close>

definition registerPermissions_guild ::
  "ShewenyClient \<Rightarrow> (Snowflake, ApplicationCommand) Collection \<Rightarrow> (string, Command) Collection
     \<Rightarrow> Snowflake \<Rightarrow> (error + unit) \<times> RemoteCall list" where
  "registerPermissions_guild client applicationCommands commandsCollection gId =
     (let guild = Collection_get (guilds_cache client) gId in
      case fullPermissions_loop client guild commandsCollection applicationCommands [] of
        Inl e \<Rightarrow> (Inl e, [])
      | Inr fullPermissions \<Rightarrow>
          (case guild of
             None \<Rightarrow> (Inr (), [])
           | Some g \<Rightarrow>
               (case permissions_set g fullPermissions of
                  Some e \<Rightarrow> (Inl e, [GuildPermissionsSet gId fullPermissions])
                | None \<Rightarrow> (Inr (), [GuildPermissionsSet gId fullPermissions]))))"

text \<open>
  The guild argument is \<^verbatim>\<open>undefined\<close>, one id or an array of ids. An array is truthy whatever it
  holds. On an array, \<^verbatim>\<open>every\<close> runs an \<^verbatim>\<open>async\<close> callback: each call returns a promise, which
  is truthy, so every id is visited and the result is \<^verbatim>\<open>true\<close>; each inner call runs up to its
  bulk call at once and its rejection is never read.
\<close>

datatype guildId_argument = GuildUndefined | GuildId Snowflake | GuildIds "Snowflake list"

datatype registerPermissions_result = Void | Boolean bool

definition registerPermissions ::
  "CommandsManager \<Rightarrow> ShewenyClient \<Rightarrow> (Snowflake, ApplicationCommand) Collection option
     \<Rightarrow> (string, Command) Collection option \<Rightarrow> guildId_argument
     \<Rightarrow> (error + registerPermissions_result) \<times> RemoteCall list" where
  "registerPermissions this client applicationCommands_arg commandsCollection_arg guildId_arg =
     (let applicationCommands =
            (case applicationCommands_arg of
               None \<Rightarrow> (case application client of None \<Rightarrow> None | Some app \<Rightarrow> Some (commands_cache app))
             | Some a \<Rightarrow> Some a);
          commandsCollection =
            (case commandsCollection_arg of None \<Rightarrow> commands this | Some c \<Rightarrow> Some c);
          gIdArg =
            (case guildId_arg of
               GuildUndefined \<Rightarrow> (case guildId this of None \<Rightarrow> GuildUndefined | Some g \<Rightarrow> GuildId g)
             | _ \<Rightarrow> guildId_arg)
      in case applicationCommands of
        None \<Rightarrow> (Inl (ReferenceError ''Commands of application must be provided''), [])
      | Some acs \<Rightarrow>
          (case commandsCollection of
             None \<Rightarrow> (Inl (ReferenceError ''Commands of client must be provided''), [])
           | Some cc \<Rightarrow>
               (case gIdArg of
                  GuildUndefined \<Rightarrow> (Inl (ReferenceError ''Guild ID must be provided''), [])
                | GuildId g \<Rightarrow>
                    if g = [] then (Inl (ReferenceError ''Guild ID must be provided''), [])
                    else (case registerPermissions_guild client acs cc g of
                            (Inl e, calls) \<Rightarrow> (Inl e, calls)
                          | (Inr u, calls) \<Rightarrow> (Inr Void, calls))
                | GuildIds gs \<Rightarrow>
                    (Inr (Boolean True),
                     concat (map (\<lambda>g. if g = [] then []
                                       else snd (registerPermissions_guild client acs cc g)) gs)))))"

subsection \<open>registerAllApplicationCommands\<close>

text \<open>
  Both parameters have defaults: an \<^verbatim>\<open>undefined\<close> collection is replaced by \<^verbatim>\<open>this.commands\<close>,
  an \<^verbatim>\<open>undefined\<close> guild id by \<^verbatim>\<open>this.guildId\<close>. The projection is taken by \<^verbatim>\<open>this.getData()\<close>,
  called without an argument. The result is \<open>None\<close> when \<^verbatim>\<open>awaitReady\<close> never settles; otherwise
  the outcome (a thrown error, or the platform's commands, or \<^verbatim>\<open>undefined\<close>) with the bulk calls
  made up to that point.
\<close>

definition registerAllApplicationCommands ::
  "CommandsManager \<Rightarrow> ShewenyClient \<Rightarrow> (string, Command) Collection option \<Rightarrow> Snowflake option
     \<Rightarrow> ((error + (Snowflake, ApplicationCommand) Collection option) \<times> RemoteCall list) option" where
  "registerAllApplicationCommands this client commands_arg guildId_arg =
     (let cmdsParam = (case commands_arg of None \<Rightarrow> commands this | Some c \<Rightarrow> Some c);
          gId = (case guildId_arg of None \<Rightarrow> guildId this | Some g \<Rightarrow> Some g)
      in case cmdsParam of
        None \<Rightarrow> Some (Inl (Error ''Commands not found''), [])
      | Some _ \<Rightarrow>
          (case getData this ArgUndefined of
             Inl e \<Rightarrow> Some (Inl e, [])
           | Inr data \<Rightarrow>
               (case awaitReady client of
                  None \<Rightarrow> None
                | Some _ \<Rightarrow>
                    (case data of
                       DataList ds \<Rightarrow>
                         if length ds > 0 then
                           (case application client of
                              None \<Rightarrow>
                                if truthy_boolean (applicationPermissions this)
                                then (case registerPermissions this client None None GuildUndefined of
                                        (Inl e, calls) \<Rightarrow> Some (Inl e, calls)
                                      | (Inr r, calls) \<Rightarrow> Some (Inr None, calls))
                                else Some (Inr None, [])
                            | Some app \<Rightarrow>
                                let scope = (if truthy_string gId then gId else None);
                                    call = ApplicationCommandsSet ds scope
                                in (case commands_set app ds scope of
                                      Inl e \<Rightarrow> Some (Inl e, [call])
                                    | Inr cmds \<Rightarrow>
                                        if truthy_boolean (applicationPermissions this)
                                        then (case registerPermissions this client (Some cmds) None
                                                     GuildUndefined of
                                                (Inl e, calls) \<Rightarrow> Some (Inl e, call # calls)
                                              | (Inr r, calls) \<Rightarrow> Some (Inr (Some cmds), call # calls))
                                        else Some (Inr (Some cmds), [call])))
                         else Some (Inr None, [])
                     | _ \<Rightarrow> Some (Inr None, [])))))"

section \<open>Modules\<close>

text \<open>
  Node's module system, as far as \<^verbatim>\<open>import\<close>, \<^verbatim>\<open>require.resolve\<close> and \<^verbatim>\<open>require.cache\<close> are used:
  the module files on disk and the cache of loaded modules, both keyed by absolute file name
  (the paths a loader records are absolute, so resolving one is finding the file). A module is
  what it default-exports, if anything: a class whose constructor takes the client. For a
  command class the constructor hands a \<^verbatim>\<open>CommandData\<close> to \<^verbatim>\<open>super\<close>, so the class is that data; an
  event class is the instance it builds.
\<close>

datatype 'a Module = Module (default_export: "'a option")

record 'a NodeModules =
  disk :: "string \<rightharpoonup> 'a Module"
  require_cache :: "string \<rightharpoonup> 'a Module"

definition require_resolve :: "'a NodeModules \<Rightarrow> string option \<Rightarrow> error + string" where
  "require_resolve node request =
     (case request of
        None \<Rightarrow> Inl (TypeError ''The request argument must be of type string'')
      | Some p \<Rightarrow> if p \<in> dom (disk node) then Inr p else Inl (Error ''Cannot find module''))"

text \<open>\<^verbatim>\<open>import(path)\<close>: a cached module is returned as it is, another is read and cached.\<close>

definition import_module ::
  "'a NodeModules \<Rightarrow> string option \<Rightarrow> (error + 'a Module) \<times> 'a NodeModules" where
  "import_module node request =
     (case request of
        None \<Rightarrow> (Inl (TypeError ''The request argument must be of type string''), node)
      | Some p \<Rightarrow>
          (case require_cache node p of
             Some m \<Rightarrow> (Inr m, node)
           | None \<Rightarrow>
               (case disk node p of
                  None \<Rightarrow> (Inl (Error ''Cannot find module''), node)
                | Some m \<Rightarrow> (Inr m, node\<lparr> require_cache := (require_cache node)(p \<mapsto> m) \<rparr>))))"

section \<open>Command: unregister, reload, register\<close>

text \<open>
  The three methods read and write \<^verbatim>\<open>client.collections.commands\<close> and the module cache; each
  returns its outcome with the client and the modules as it leaves them.
\<close>

definition unregister ::
  "Command \<Rightarrow> ShewenyClient \<Rightarrow> CommandData NodeModules
     \<Rightarrow> (error + bool) \<times> ShewenyClient \<times> CommandData NodeModules" where
  "unregister this client node =
     (let client' =
            (case collections_commands client of
               None \<Rightarrow> client
             | Some cs \<Rightarrow> client\<lparr> collections_commands := Some (Collection_delete (name this) cs) \<rparr>)
      in case require_resolve node (path this) of
        Inl e \<Rightarrow> (Inl e, client', node)
      | Inr filename \<Rightarrow>
          (Inr True, client', node\<lparr> require_cache := (require_cache node)(filename := None) \<rparr>))"

definition register ::
  "Command \<Rightarrow> ShewenyClient \<Rightarrow> CommandData NodeModules
     \<Rightarrow> (error + (string, Command) Collection) \<times> ShewenyClient \<times> CommandData NodeModules" where
  "register this client node =
     (case import_module node (path this) of
        (Inl e, node') \<Rightarrow> (Inl e, client, node')
      | (Inr m, node') \<Rightarrow>
          (case default_export m of
             None \<Rightarrow> (Inl (TypeError ''Command is not a constructor''), client, node')
           | Some d \<Rightarrow>
               let AC = Command_constructor d in
               (case collections_commands client of
                  Some cs \<Rightarrow>
                    let cs' = Collection_set (name AC) AC cs
                    in (Inr cs', client\<lparr> collections_commands := Some cs' \<rparr>, node')
                | None \<Rightarrow> (Inr (Collection_set (name AC) AC []), client, node'))))"

text \<open>\<^verbatim>\<open>reload\<close> returns \<^verbatim>\<open>null\<close>, here \<open>None\<close>, when \<^verbatim>\<open>this.path\<close> is falsy.\<close>

definition reload ::
  "Command \<Rightarrow> ShewenyClient \<Rightarrow> CommandData NodeModules
     \<Rightarrow> (error + (string, Command) Collection option) \<times> ShewenyClient \<times> CommandData NodeModules" where
  "reload this client node =
     (if truthy_string (path this) then
        (case unregister this client node of
           (Inl e, client', node') \<Rightarrow> (Inl e, client', node')
         | (Inr b, client', node') \<Rightarrow>
             (case register this client' node' of
                (Inl e, client'', node'') \<Rightarrow> (Inl e, client'', node'')
              | (Inr cs, client'', node'') \<Rightarrow> (Inr (Some cs), client'', node'')))
      else (Inr None, client, node))"

section \<open>EventsHandler\<close>

text \<open>
  The directory tree \<^verbatim>\<open>readDirAndPush\<close> walks: \<^verbatim>\<open>readdir\<close> lists the entries of a directory in
  order, \<^verbatim>\<open>stat\<close> tells a directory from a file. \<^verbatim>\<open>join\<close> puts a separator between its arguments;
  the normalisation \<^verbatim>\<open>path.join\<close> also performs is left out, it changes the spelling of a path only.
\<close>

datatype Dirent = File string | Directory string "Dirent list"

definition join :: "string \<Rightarrow> string \<Rightarrow> string" where
  "join d item = d @ ''/'' @ item"

fun read :: "string \<Rightarrow> Dirent list \<Rightarrow> string list \<Rightarrow> string list" where
  "read d [] files = files"
| "read d (File item # result) files = read d result (files @ [join d item])"
| "read d (Directory item children # result) files =
     read d result (read (join d item) children files)"

definition readDirAndPush :: "string \<Rightarrow> Dirent list \<Rightarrow> string list" where
  "readDirAndPush d tree = read d tree []"

record EventsHandler =
  dir :: string

text \<open>
  The loop of \<^verbatim>\<open>registerAll\<close>, on \<^verbatim>\<open>client.events\<close>: a module without a default export and an
  instance without a name are skipped, a rejected import ends the loop with its error.
\<close>

fun registerAll_loop ::
  "string list \<Rightarrow> (string, Event) Collection \<Rightarrow> Event NodeModules
     \<Rightarrow> error option \<times> (string, Event) Collection \<times> Event NodeModules" where
  "registerAll_loop [] evts node = (None, evts, node)"
| "registerAll_loop (evtPath # rest) evts node =
     (case import_module node (Some evtPath) of
        (Inl e, node') \<Rightarrow> (Some e, evts, node')
      | (Inr m, node') \<Rightarrow>
          (case default_export m of
             None \<Rightarrow> registerAll_loop rest evts node'
           | Some instance \<Rightarrow>
               (case event_name instance of
                  None \<Rightarrow> registerAll_loop rest evts node'
                | Some n \<Rightarrow>
                    if n = [] then registerAll_loop rest evts node'
                    else registerAll_loop rest
                           (Collection_set n (instance\<lparr> event_path := Some evtPath \<rparr>) evts) node')))"

text \<open>\<open>main_path\<close> is \<^verbatim>\<open>require.main.path\<close>, \<open>tree\<close> the content of the events directory.\<close>

definition registerAll ::
  "EventsHandler \<Rightarrow> string \<Rightarrow> Dirent list \<Rightarrow> ShewenyClient \<Rightarrow> Event NodeModules
     \<Rightarrow> (error + (string, Event) Collection) \<times> ShewenyClient \<times> Event NodeModules" where
  "registerAll this main_path tree client node =
     (let baseDir = join main_path (dir this);
          evtsPaths = readDirAndPush baseDir tree
      in case registerAll_loop evtsPaths (events client) node of
        (Some e, evts, node') \<Rightarrow> (Inl e, client\<lparr> events := evts \<rparr>, node')
      | (None, evts, node') \<Rightarrow> (Inr evts, client\<lparr> events := evts \<rparr>, node'))"

section \<open>Example commands\<close>

text \<open>
  \<open>PingCommand\<close> is the command class among the sources; the two others are a context menu
  command that requires a permission and a message command declared without a type.
\<close>

definition PingCommand :: CommandData where
  "PingCommand =
     \<lparr> data_name = ''test-selectmenus'', data_description = Some ''Send buttons'',
       data_type = Some SLASH_COMMAND, data_defaultPermission = None, data_options = None,
       data_args = None, data_category = Some ''Tests'', data_channel = None,
       data_cooldown = None, data_adminsOnly = None, data_userPermissions = None,
       data_clientPermissions = None, data_aliases = None \<rparr>"

definition BanCommand :: CommandData where
  "BanCommand =
     \<lparr> data_name = ''ban'', data_description = Some ''Ban a member'',
       data_type = Some CONTEXT_MENU_USER, data_defaultPermission = Some True, data_options = None,
       data_args = None, data_category = Some ''Moderation'', data_channel = Some GUILD,
       data_cooldown = Some 5, data_adminsOnly = None,
       data_userPermissions = Some [''BAN_MEMBERS''],
       data_clientPermissions = Some [''BAN_MEMBERS''], data_aliases = None \<rparr>"

definition HelpCommand :: CommandData where
  "HelpCommand =
     \<lparr> data_name = ''help'', data_description = None,
       data_type = None, data_defaultPermission = Some True, data_options = None,
       data_args = None, data_category = None, data_channel = None,
       data_cooldown = None, data_adminsOnly = None, data_userPermissions = None,
       data_clientPermissions = None, data_aliases = Some [''h''] \<rparr>"

definition example_manager :: CommandsManager where
  "example_manager =
     \<lparr> directory = ''commands'', guildId = Some ''42'', prefix = Some ''!'',
       applicationPermissions = Some True,
       commands = Some [(''test-selectmenus'', Command_constructor PingCommand),
                        (''help'', Command_constructor HelpCommand),
                        (''ban'', Command_constructor BanCommand)] \<rparr>"

text \<open>
  A platform that registers what it is sent and answers with one command per entry; a guild
  with a moderator role and a member role; a client with one admin, ready to be emitted.
\<close>

definition example_application :: ClientApplication where
  "example_application =
     \<lparr> commands_cache = [],
       commands_set = (\<lambda>data gId.
         Inr (map (\<lambda>d. (''id-'' @ acd_name d, \<lparr> ac_id = ''id-'' @ acd_name d, ac_name = acd_name d \<rparr>))
                data)) \<rparr>"

definition example_guild :: Guild where
  "example_guild =
     \<lparr> roles_cache =
         [(''7'', \<lparr> role_id = ''7'', role_permissions = [''SEND_MESSAGES'', ''KICK_MEMBERS'', ''BAN_MEMBERS''] \<rparr>),
          (''8'', \<lparr> role_id = ''8'', role_permissions = [''SEND_MESSAGES'', ''KICK_MEMBERS''] \<rparr>)],
       permissions_set = (\<lambda>fullPermissions. None) \<rparr>"

definition BanCommand_loaded :: Command where
  "BanCommand_loaded = (Command_constructor BanCommand)\<lparr> path := Some ''/bot/commands/ban.js'' \<rparr>"

definition example_client :: ShewenyClient where
  "example_client =
     \<lparr> admins = [''1000''],
       collections_commands = Some [(''test-selectmenus'', Command_constructor PingCommand),
                                    (''ban'', BanCommand_loaded)],
       events = [],
       application = Some example_application,
       guilds_cache = [(''42'', example_guild)],
       ready_emitted = True \<rparr>"

definition example_modules :: "CommandData NodeModules" where
  "example_modules =
     \<lparr> disk = [''/bot/commands/ban.js'' \<mapsto> Module (Some BanCommand),
               ''/bot/commands/ping.js'' \<mapsto> Module (Some PingCommand)],
       require_cache = [''/bot/commands/ban.js'' \<mapsto> Module (Some BanCommand)] \<rparr>"

text \<open>
  The file of the ban command after an edit that renames the command, and the same path with
  the file deleted; the cache still holds the module as it was first loaded.
\<close>

definition KickCommand :: CommandData where
  "KickCommand = BanCommand\<lparr> data_name := ''kick'', data_description := Some ''Kick a member'' \<rparr>"

definition example_modules_renamed :: "CommandData NodeModules" where
  "example_modules_renamed =
     \<lparr> disk = [''/bot/commands/ban.js'' \<mapsto> Module (Some KickCommand)],
       require_cache = [''/bot/commands/ban.js'' \<mapsto> Module (Some BanCommand)] \<rparr>"

definition example_modules_gone :: "CommandData NodeModules" where
  "example_modules_gone =
     \<lparr> disk = Map.empty,
       require_cache = [''/bot/commands/ban.js'' \<mapsto> Module (Some BanCommand)] \<rparr>"

text \<open>
  An events directory in which two modules declare the event \<open>ready\<close>: one at the top, met
  first, and one in a subdirectory, met second.
\<close>

definition example_events_tree :: "Dirent list" where
  "example_events_tree = [File ''ready.js'', Directory ''client'' [File ''ready.js'']]"

definition example_event_modules :: "Event NodeModules" where
  "example_event_modules =
     \<lparr> disk = [''/bot/events/ready.js'' \<mapsto>
                 Module (Some \<lparr> event_name = Some ''ready'', event_path = None, event_once = False \<rparr>),
               ''/bot/events/client/ready.js'' \<mapsto>
                 Module (Some \<lparr> event_name = Some ''ready'', event_path = None, event_once = True \<rparr>)],
       require_cache = Map.empty \<rparr>"

text \<open>
  What the example platform answers to the projection of the example manager's commands, that
  projection, and the permission table the example guild is sent for it.
\<close>

definition example_remote_commands :: "(Snowflake, ApplicationCommand) Collection" where
  "example_remote_commands =
     [(''id-test-selectmenus'', \<lparr> ac_id = ''id-test-selectmenus'', ac_name = ''test-selectmenus'' \<rparr>),
      (''id-ban'', \<lparr> ac_id = ''id-ban'', ac_name = ''ban'' \<rparr>)]"

definition example_projection :: "ApplicationCommandData list" where
  "example_projection =
     [\<lparr> acd_type = CHAT_INPUT, acd_name = ''test-selectmenus'',
        acd_description = Some ''Send buttons'', acd_options = None,
        acd_defaultPermission = None \<rparr>,
      \<lparr> acd_type = ApplicationCommandType.USER, acd_name = ''ban'',
        acd_description = None, acd_options = None,
        acd_defaultPermission = Some False \<rparr>]"

definition example_fullPermissions :: "GuildApplicationCommandPermissionData list" where
  "example_fullPermissions =
     [\<lparr> gapd_id = ''id-test-selectmenus'',
        gapd_permissions = [\<lparr> apd_id = ''1000'', apd_type = USER, apd_permission = True \<rparr>] \<rparr>,
      \<lparr> gapd_id = ''id-ban'',
        gapd_permissions = [\<lparr> apd_id = ''7'', apd_type = ROLE, apd_permission = True \<rparr>,
                            \<lparr> apd_id = ''1000'', apd_type = USER, apd_permission = True \<rparr>] \<rparr>]"

definition example_handler :: EventsHandler where
  "example_handler = \<lparr> dir = ''events'' \<rparr>"

section \<open>Properties of the projection\<close>

lemma getData_loop_acc:
  "getData_loop this c data = data @ List.map_filter (getData_command this) (map snd c)"
  by (induction c arbitrary: data)
     (auto simp: getData_command_def split: option.splits)

lemma getData_command_None: "getData_command this cmd = None \<longleftrightarrow> type cmd = MESSAGE_COMMAND"
  by (cases "type cmd") (simp_all add: getData_command_def renameCommandType_def)

lemma getData_command_Some_type:
  "getData_command this cmd = Some d \<Longrightarrow> type cmd \<noteq> MESSAGE_COMMAND"
  using getData_command_None[of this cmd] by auto

lemma getData_command_defaultPermission:
  "getData_command this cmd = Some d \<Longrightarrow>
   acd_defaultPermission d =
     (if truthy_boolean (applicationPermissions this) \<and> truthy_string (guildId this)
         \<and> userPermissions cmd \<noteq> []
      then Some False else defaultPermission cmd)"
  by (cases "type cmd") (auto simp add: getData_command_def renameCommandType_def)

lemma map_filter_nonmessage:
  "List.map_filter (getData_command this) (map snd c) =
   List.map_filter (getData_command this)
     (map snd (filter (\<lambda>(k, cmd). type cmd \<noteq> MESSAGE_COMMAND) c))"
  by (induction c)
     (auto simp: getData_command_None split: option.splits
           dest: getData_command_Some_type)

lemma map_filter_defaultPermission:
  "map acd_defaultPermission (List.map_filter (getData_command this) cs) =
   map (\<lambda>cmd. if truthy_boolean (applicationPermissions this) \<and> truthy_string (guildId this)
                  \<and> userPermissions cmd \<noteq> []
               then Some False else defaultPermission cmd)
     (filter (\<lambda>cmd. type cmd \<noteq> MESSAGE_COMMAND) cs)"
proof (induction cs)
  case Nil
  show ?case by (simp add: List.map_filter_simps)
next
  case (Cons c cs)
  show ?case
  proof (cases "getData_command this c")
    case None
    then have "type c = MESSAGE_COMMAND" by (simp add: getData_command_None)
    with None Cons show ?thesis by (simp add: List.map_filter_simps)
  next
    case (Some d)
    then have "type c \<noteq> MESSAGE_COMMAND" using getData_command_None[of this c] by auto
    with Some Cons getData_command_defaultPermission[OF Some] show ?thesis
      by (simp add: List.map_filter_simps)
  qed
qed

text \<open>
  C2. For a command of a remotely registrable type (slash command, user context menu, message
  context menu) the projection exists and its \<open>defaultPermission\<close> is \<open>false\<close> when
  \<open>applicationPermissions\<close> is enabled, a guild id is set on the manager and the command's
  \<open>userPermissions\<close> are not empty; in every other case it is the declared \<open>defaultPermission\<close>,
  unchanged. So, unless \<open>false\<close> is what the command declares, the projected value is \<open>false\<close>
  exactly under these three conditions. The same holds entry by entry for the projection of a
  collection.
\<close>

theorem getData_defaultPermission:
  "(type cmd \<in> {SLASH_COMMAND, CONTEXT_MENU_USER, CONTEXT_MENU_MESSAGE} \<longrightarrow>
      (\<exists>d. getData this (ArgCommand cmd) = Inr (DataOne d) \<and>
           acd_defaultPermission d =
             (if truthy_boolean (applicationPermissions this) \<and> truthy_string (guildId this)
                 \<and> userPermissions cmd \<noteq> []
              then Some False else defaultPermission cmd) \<and>
           (defaultPermission cmd \<noteq> Some False \<longrightarrow>
              (acd_defaultPermission d = Some False \<longleftrightarrow>
                 truthy_boolean (applicationPermissions this) \<and> truthy_string (guildId this)
                   \<and> userPermissions cmd \<noteq> [])))) \<and>
   (\<exists>ds. getData this (ArgCollection c) = Inr (DataList ds) \<and>
         map acd_defaultPermission ds =
           map (\<lambda>cmd. if truthy_boolean (applicationPermissions this) \<and> truthy_string (guildId this)
                         \<and> userPermissions cmd \<noteq> []
                       then Some False else defaultPermission cmd)
             (filter (\<lambda>cmd. type cmd \<noteq> MESSAGE_COMMAND) (map snd c)))"
proof (intro conjI impI)
  assume t: "type cmd \<in> {SLASH_COMMAND, CONTEXT_MENU_USER, CONTEXT_MENU_MESSAGE}"
  then obtain d where d: "getData_command this cmd = Some d"
    using getData_command_None[of this cmd] by auto
  from d getData_command_defaultPermission[OF d]
  show "\<exists>d. getData this (ArgCommand cmd) = Inr (DataOne d) \<and>
           acd_defaultPermission d =
             (if truthy_boolean (applicationPermissions this) \<and> truthy_string (guildId this)
                 \<and> userPermissions cmd \<noteq> []
              then Some False else defaultPermission cmd) \<and>
           (defaultPermission cmd \<noteq> Some False \<longrightarrow>
              (acd_defaultPermission d = Some False \<longleftrightarrow>
                 truthy_boolean (applicationPermissions this) \<and> truthy_string (guildId this)
                   \<and> userPermissions cmd \<noteq> []))"
    by (simp add: getData_def)
next
  show "\<exists>ds. getData this (ArgCollection c) = Inr (DataList ds) \<and>
         map acd_defaultPermission ds =
           map (\<lambda>cmd. if truthy_boolean (applicationPermissions this) \<and> truthy_string (guildId this)
                         \<and> userPermissions cmd \<noteq> []
                       then Some False else defaultPermission cmd)
             (filter (\<lambda>cmd. type cmd \<noteq> MESSAGE_COMMAND) (map snd c))"
    by (simp add: getData_def getData_loop_acc map_filter_defaultPermission)
qed

theorem getData_defaultPermission_witness:
  "type (Command_constructor BanCommand) \<in> {SLASH_COMMAND, CONTEXT_MENU_USER, CONTEXT_MENU_MESSAGE} \<and>
   defaultPermission (Command_constructor BanCommand) = Some True \<and>
   (\<exists>d. getData example_manager (ArgCommand (Command_constructor BanCommand)) = Inr (DataOne d) \<and>
        acd_defaultPermission d = Some False) \<and>
   (\<exists>ds. getData example_manager (ArgCollection (the (commands example_manager))) = Inr (DataList ds) \<and>
        map acd_defaultPermission ds = [None, Some False])"
  using getData_defaultPermission
    [of "Command_constructor BanCommand" example_manager "the (commands example_manager)"]
  by (simp add: Command_constructor_def BanCommand_def PingCommand_def HelpCommand_def
        example_manager_def isType_def truthy_boolean_def truthy_string_def)

text \<open>
  C4. \<open>getData\<close> produces nothing for a \<open>MESSAGE_COMMAND\<close>: on one such command it returns
  \<^verbatim>\<open>undefined\<close>; on a collection the result is the one obtained with every message command
  removed, it has one entry per command of another type, and each entry is the projection of a
  command of another type.
\<close>

theorem getData_skips_MESSAGE_COMMAND:
  "(type cmd = MESSAGE_COMMAND \<longrightarrow> getData this (ArgCommand cmd) = Inr DataUndefined) \<and>
   getData this (ArgCollection c) =
     getData this (ArgCollection (filter (\<lambda>(k, cmd). type cmd \<noteq> MESSAGE_COMMAND) c)) \<and>
   (\<exists>ds. getData this (ArgCollection c) = Inr (DataList ds) \<and>
         length ds = length (filter (\<lambda>(k, cmd). type cmd \<noteq> MESSAGE_COMMAND) c) \<and>
         (\<forall>d \<in> set ds. \<exists>(k, cmd) \<in> set c.
             type cmd \<noteq> MESSAGE_COMMAND \<and> getData_command this cmd = Some d))"
proof (intro conjI impI)
  assume "type cmd = MESSAGE_COMMAND"
  then show "getData this (ArgCommand cmd) = Inr DataUndefined"
    by (simp add: getData_def getData_command_def)
next
  show "getData this (ArgCollection c) =
     getData this (ArgCollection (filter (\<lambda>(k, cmd). type cmd \<noteq> MESSAGE_COMMAND) c))"
    using map_filter_nonmessage[of this c] by (simp add: getData_def getData_loop_acc)
next
  have len: "length (List.map_filter (getData_command this) (map snd c)) =
        length (filter (\<lambda>(k, cmd). type cmd \<noteq> MESSAGE_COMMAND) c)"
    by (induction c)
       (auto simp: getData_command_None split: option.splits
             dest: getData_command_Some_type)
  have mem: "\<forall>d \<in> set (List.map_filter (getData_command this) (map snd c)).
       \<exists>(k, cmd) \<in> set c. type cmd \<noteq> MESSAGE_COMMAND \<and> getData_command this cmd = Some d"
  proof
    fix d assume "d \<in> set (List.map_filter (getData_command this) (map snd c))"
    then obtain e where e: "e \<in> set c" "getData_command this (snd e) = Some d"
      by (auto simp: List.map_filter_def)
    then have "type (snd e) \<noteq> MESSAGE_COMMAND"
      using getData_command_None[of this "snd e"] by auto
    with e show "\<exists>(k, cmd) \<in> set c. type cmd \<noteq> MESSAGE_COMMAND \<and> getData_command this cmd = Some d"
      by (intro bexI[of _ e]) (simp_all add: case_prod_beta)
  qed
  from len mem
  show "\<exists>ds. getData this (ArgCollection c) = Inr (DataList ds) \<and>
         length ds = length (filter (\<lambda>(k, cmd). type cmd \<noteq> MESSAGE_COMMAND) c) \<and>
         (\<forall>d \<in> set ds. \<exists>(k, cmd) \<in> set c.
             type cmd \<noteq> MESSAGE_COMMAND \<and> getData_command this cmd = Some d)"
    by (simp add: getData_def getData_loop_acc)
qed

theorem getData_skips_MESSAGE_COMMAND_witness:
  "type (Command_constructor HelpCommand) = MESSAGE_COMMAND \<and>
   getData example_manager (ArgCommand (Command_constructor HelpCommand)) = Inr DataUndefined \<and>
   (\<exists>ds. getData example_manager (ArgCollection (the (commands example_manager))) = Inr (DataList ds) \<and>
        map acd_name ds = [''test-selectmenus'', ''ban''])"
  using getData_skips_MESSAGE_COMMAND
    [of "Command_constructor HelpCommand" example_manager "the (commands example_manager)"]
  by (simp add: Command_constructor_def BanCommand_def PingCommand_def HelpCommand_def
        example_manager_def isType_def getData_def getData_command_def renameCommandType_def)

text \<open>
  C9. The constructor's defaults: type \<open>MESSAGE_COMMAND\<close> when the type is left out, cooldown
  0, empty \<open>userPermissions\<close> and \<open>clientPermissions\<close>, \<open>adminsOnly\<close> false when these are left
  out; \<open>defaultPermission\<close> is defined only for the three application command types; and a
  command built without a type is never projected, alone or in a collection.
\<close>

theorem Command_constructor_defaults:
  "(data_type d = None \<longrightarrow> type (Command_constructor d) = MESSAGE_COMMAND) \<and>
   (data_cooldown d = None \<longrightarrow> cooldown (Command_constructor d) = 0) \<and>
   (data_userPermissions d = None \<longrightarrow> userPermissions (Command_constructor d) = []) \<and>
   (data_clientPermissions d = None \<longrightarrow> clientPermissions (Command_constructor d) = []) \<and>
   (data_adminsOnly d = None \<longrightarrow> adminsOnly (Command_constructor d) = False) \<and>
   (defaultPermission (Command_constructor d) \<noteq> None \<longrightarrow>
      type (Command_constructor d) \<in> {SLASH_COMMAND, CONTEXT_MENU_USER, CONTEXT_MENU_MESSAGE}) \<and>
   (data_type d = None \<longrightarrow>
      getData this (ArgCommand (Command_constructor d)) = Inr DataUndefined \<and>
      getData this (ArgCollection [(name (Command_constructor d), Command_constructor d)])
        = Inr (DataList []))"
  by (auto simp: Command_constructor_def Let_def isType_def getData_def getData_command_def
           split: option.splits if_splits)

theorem Command_constructor_defaults_witness:
  "data_type HelpCommand = None \<and> data_cooldown HelpCommand = None \<and>
   data_userPermissions HelpCommand = None \<and> data_clientPermissions HelpCommand = None \<and>
   data_adminsOnly HelpCommand = None \<and>
   defaultPermission (Command_constructor BanCommand) \<noteq> None \<and>
   type (Command_constructor HelpCommand) = MESSAGE_COMMAND \<and>
   cooldown (Command_constructor HelpCommand) = 0 \<and>
   userPermissions (Command_constructor HelpCommand) = [] \<and>
   clientPermissions (Command_constructor HelpCommand) = [] \<and>
   adminsOnly (Command_constructor HelpCommand) = False \<and>
   type (Command_constructor BanCommand) \<in> {SLASH_COMMAND, CONTEXT_MENU_USER, CONTEXT_MENU_MESSAGE} \<and>
   getData example_manager (ArgCommand (Command_constructor HelpCommand)) = Inr DataUndefined"
  using Command_constructor_defaults [of HelpCommand example_manager]
    Command_constructor_defaults [of BanCommand example_manager]
  by (simp add: HelpCommand_def BanCommand_def Command_constructor_def isType_def)

section \<open>Properties of collections\<close>

lemma Collection_get_set:
  "Collection_get (Collection_set k v cs) k' = (if k' = k then Some v else Collection_get cs k')"
  by (induction cs) auto

lemma Collection_set_keys:
  "set (map fst (Collection_set k v cs)) = insert k (set (map fst cs))"
proof (induction cs)
  case Nil
  show ?case by simp
next
  case (Cons e cs)
  obtain k' v' where e: "e = (k', v')" by (cases e)
  from Cons e show ?case by (cases "k' = k") auto
qed

lemma Collection_set_distinct:
  "distinct (map fst cs) \<Longrightarrow> distinct (map fst (Collection_set k v cs))"
proof (induction cs)
  case Nil
  then show ?case by simp
next
  case (Cons e cs)
  obtain k' v' where e: "e = (k', v')" by (cases e)
  show ?case
  proof (cases "k' = k")
    case True
    with Cons.prems e show ?thesis by simp
  next
    case False
    have "k' \<notin> set (map fst (Collection_set k v cs))"
      using Cons.prems e False by (simp only: Collection_set_keys) auto
    with Cons e False show ?thesis by simp
  qed
qed

lemma Collection_set_filter_other:
  "n \<noteq> k \<Longrightarrow>
   filter (\<lambda>(k', v). k' = k) (Collection_set n v cs) = filter (\<lambda>(k', v). k' = k) cs"
  by (induction cs) auto

lemma filter_key_absent:
  "k \<notin> set (map fst cs) \<Longrightarrow> filter (\<lambda>(k', v). k' = k) cs = []"
  by (induction cs) auto

lemma Collection_set_filter_same:
  "distinct (map fst cs) \<Longrightarrow> filter (\<lambda>(k', v'). k' = k) (Collection_set k v cs) = [(k, v)]"
  by (induction cs) (auto simp: filter_key_absent)

lemma Collection_get_delete:
  "Collection_get (Collection_delete k cs) k' = (if k' = k then None else Collection_get cs k')"
  by (induction cs) auto

lemma Collection_delete_absent:
  "Collection_get cs k = None \<Longrightarrow> Collection_delete k cs = cs"
  by (induction cs) (auto split: if_splits)

lemma Command_constructor_path: "path (Command_constructor d) = None"
  by (simp add: Command_constructor_def Let_def)

lemma Command_constructor_name: "name (Command_constructor d) = data_name d"
  by (simp add: Command_constructor_def Let_def)

lemmas example_defs =
  example_manager_def example_client_def example_guild_def example_application_def
  Command_constructor_def PingCommand_def BanCommand_def HelpCommand_def isType_def

section \<open>Properties of registerPermissions\<close>

lemma fullPermissions_loop_resolved:
  assumes "\<forall>(k, appCommand) \<in> set acs. Collection_get cc (ac_name appCommand) \<noteq> None"
  shows "fullPermissions_loop client (Some guild) cc acs full =
     Inr (full @ map (\<lambda>(k, appCommand).
        \<lparr> gapd_id = ac_id appCommand,
          gapd_permissions =
            (if userPermissions (the (Collection_get cc (ac_name appCommand))) = [] then []
             else map (\<lambda>(k, role). \<lparr> apd_id = role_id role, apd_type = ROLE, apd_permission = True \<rparr>)
                    (filter (\<lambda>(k, role). set (userPermissions (the (Collection_get cc (ac_name appCommand))))
                                            \<subseteq> set (role_permissions role))
                       (roles_cache guild))) @
            map (\<lambda>userId. \<lparr> apd_id = userId, apd_type = USER, apd_permission = True \<rparr>) (admins client) \<rparr>)
        acs)"
  using assms
proof (induction acs arbitrary: full)
  case Nil
  show ?case by simp
next
  case (Cons a acs)
  obtain k appCommand where a: "a = (k, appCommand)" by (cases a)
  from Cons.prems a obtain cmd where c: "Collection_get cc (ac_name appCommand) = Some cmd" by auto
  from Cons.prems have rest: "\<forall>(k, appCommand) \<in> set acs. Collection_get cc (ac_name appCommand) \<noteq> None"
    by simp
  show ?case
    by (simp add: a c Cons.IH[OF rest] getRoles_def Permissions_has_def Let_def)
qed

text \<open>
  C3. For one guild id whose guild is in the client's cache, with every remote command matched
  by a local command of the same name: the permission list built for a remote command holds one
  \<open>ROLE\<close> entry with permission \<open>true\<close> per guild role whose granted permissions include all of
  the local command's \<open>userPermissions\<close> (none when that list is empty), followed by one \<open>USER\<close>
  entry with permission \<open>true\<close> per admin id, whatever the roles; and the whole table is sent in
  one bulk call for that guild, the only call made.
\<close>

theorem registerPermissions_single_guild:
  assumes "gId \<noteq> []"
    and "Collection_get (guilds_cache client) gId = Some guild"
    and "\<forall>(k, appCommand) \<in> set applicationCommands.
           Collection_get commandsCollection (ac_name appCommand) \<noteq> None"
  shows "\<exists>outcome.
     registerPermissions this client (Some applicationCommands) (Some commandsCollection) (GuildId gId) =
       (outcome,
        [GuildPermissionsSet gId
           (map (\<lambda>(k, appCommand).
              \<lparr> gapd_id = ac_id appCommand,
                gapd_permissions =
                  (if userPermissions (the (Collection_get commandsCollection (ac_name appCommand))) = []
                   then []
                   else map (\<lambda>(k, role).
                          \<lparr> apd_id = role_id role, apd_type = ROLE, apd_permission = True \<rparr>)
                          (filter (\<lambda>(k, role).
                             set (userPermissions (the (Collection_get commandsCollection (ac_name appCommand))))
                               \<subseteq> set (role_permissions role))
                             (roles_cache guild))) @
                  map (\<lambda>userId. \<lparr> apd_id = userId, apd_type = USER, apd_permission = True \<rparr>)
                    (admins client) \<rparr>)
              applicationCommands)])"
  using assms(1,2)
  by (simp add: registerPermissions_def registerPermissions_guild_def
        fullPermissions_loop_resolved[OF assms(3)] split: option.splits)

theorem registerPermissions_single_guild_witness:
  "''42'' \<noteq> [] \<and>
   Collection_get (guilds_cache example_client) ''42'' = Some example_guild \<and>
   map (\<lambda>(k, appCommand). ac_name appCommand) example_remote_commands =
     [''test-selectmenus'', ''ban''] \<and>
   Collection_get (the (commands example_manager)) ''test-selectmenus'' \<noteq> None \<and>
   Collection_get (the (commands example_manager)) ''ban'' \<noteq> None \<and>
   registerPermissions example_manager example_client (Some example_remote_commands)
       (Some (the (commands example_manager))) (GuildId ''42'') =
     (Inr Void,
      [GuildPermissionsSet ''42''
         [\<lparr> gapd_id = ''id-test-selectmenus'',
            gapd_permissions = [\<lparr> apd_id = ''1000'', apd_type = USER, apd_permission = True \<rparr>] \<rparr>,
          \<lparr> gapd_id = ''id-ban'',
            gapd_permissions = [\<lparr> apd_id = ''7'', apd_type = ROLE, apd_permission = True \<rparr>,
                                \<lparr> apd_id = ''1000'', apd_type = USER, apd_permission = True \<rparr>] \<rparr>]])"
proof -
  have h1: "''42'' \<noteq> []" by simp
  have h2: "Collection_get (guilds_cache example_client) ''42'' = Some example_guild"
    by (simp add: example_client_def)
  have h3: "\<forall>(k, appCommand) \<in> set example_remote_commands.
       Collection_get (the (commands example_manager)) (ac_name appCommand) \<noteq> None"
    by (simp add: example_remote_commands_def example_manager_def)
  have r: "fst (registerPermissions example_manager example_client (Some example_remote_commands)
       (Some (the (commands example_manager))) (GuildId ''42'')) = Inr Void"
    by (simp add: registerPermissions_def registerPermissions_guild_def getRoles_def
          Permissions_has_def example_remote_commands_def example_defs)
  from registerPermissions_single_guild [OF h1 h2 h3, of example_manager] obtain outcome where
    "registerPermissions example_manager example_client (Some example_remote_commands)
       (Some (the (commands example_manager))) (GuildId ''42'') =
     (outcome,
      [GuildPermissionsSet ''42''
         [\<lparr> gapd_id = ''id-test-selectmenus'',
            gapd_permissions = [\<lparr> apd_id = ''1000'', apd_type = USER, apd_permission = True \<rparr>] \<rparr>,
          \<lparr> gapd_id = ''id-ban'',
            gapd_permissions = [\<lparr> apd_id = ''7'', apd_type = ROLE, apd_permission = True \<rparr>,
                                \<lparr> apd_id = ''1000'', apd_type = USER, apd_permission = True \<rparr>] \<rparr>]])"
    by (auto simp: example_remote_commands_def example_defs)
  moreover have "map (\<lambda>(k, appCommand). ac_name appCommand) example_remote_commands =
     [''test-selectmenus'', ''ban'']"
    by (simp add: example_remote_commands_def)
  moreover have "Collection_get (the (commands example_manager)) ''test-selectmenus'' \<noteq> None"
    and "Collection_get (the (commands example_manager)) ''ban'' \<noteq> None"
    by (simp_all add: example_manager_def)
  ultimately show ?thesis using r h1 h2 by simp
qed

section \<open>Properties of registerAllApplicationCommands\<close>

lemma registerPermissions_guild_calls:
  "filter is_ApplicationCommandsSet (snd (registerPermissions_guild client acs cc g)) = []"
  by (simp add: registerPermissions_guild_def Let_def split: sum.splits option.splits)

lemma registerPermissions_calls:
  "filter is_ApplicationCommandsSet (snd (registerPermissions this client a c g)) = []"
proof -
  have many: "filter is_ApplicationCommandsSet
      (concat (map (\<lambda>g. if g = [] then [] else snd (registerPermissions_guild client acs cc g)) gs)) = []"
    for acs cc gs
    by (induction gs) (simp_all add: registerPermissions_guild_calls)
  have one: "filter is_ApplicationCommandsSet
      (snd (case registerPermissions_guild client acs cc g of
              (Inl e, calls) \<Rightarrow> (Inl e, calls)
            | (Inr u, calls) \<Rightarrow> (Inr Void, calls))) = []"
    for acs cc g
    using registerPermissions_guild_calls[of client acs cc g]
    by (cases "registerPermissions_guild client acs cc g") (auto split: sum.splits)
  show ?thesis
    unfolding registerPermissions_def Let_def
    by (simp add: many one split: option.splits guildId_argument.splits)
qed

lemma example_getData:
  "getData example_manager ArgUndefined = Inr (DataList example_projection)"
  by (simp add: getData_def renameCommandType_def truthy_boolean_def truthy_string_def
        example_projection_def example_defs)

lemma example_commands_set:
  "commands_set example_application example_projection g = Inr example_remote_commands"
  by (simp add: example_application_def example_projection_def example_remote_commands_def)

lemma example_registerPermissions:
  "registerPermissions example_manager example_client (Some example_remote_commands) None GuildUndefined =
     (Inr Void, [GuildPermissionsSet ''42'' example_fullPermissions])"
  by (simp add: registerPermissions_def registerPermissions_guild_def getRoles_def
        Permissions_has_def example_remote_commands_def example_fullPermissions_def example_defs)

lemma example_registerAll:
  "commands_arg = None \<or> commands_arg = Some c \<Longrightarrow>
   registerAllApplicationCommands example_manager example_client commands_arg None =
     Some (Inr (Some example_remote_commands),
           [ApplicationCommandsSet example_projection (Some ''42''),
            GuildPermissionsSet ''42'' example_fullPermissions])"
proof -
  assume a: "commands_arg = None \<or> commands_arg = Some c"
  have c: "commands example_manager \<noteq> None" by (simp add: example_manager_def)
  have g: "guildId example_manager = Some ''42''" by (simp add: example_manager_def)
  have p: "truthy_boolean (applicationPermissions example_manager)"
    by (simp add: example_manager_def truthy_boolean_def)
  have r: "awaitReady example_client = Some True"
    by (simp add: awaitReady_def example_client_def)
  have ap: "application example_client = Some example_application"
    by (simp add: example_client_def)
  have n: "example_projection \<noteq> []" by (simp add: example_projection_def)
  from a c show ?thesis
    unfolding registerAllApplicationCommands_def Let_def
    by (auto simp: example_getData g p r ap n truthy_string_def example_commands_set
          example_registerPermissions)
qed

text \<open>
  C1, as stated, fails on the default parameters. Called with no collection and no guild id on
  a manager that has a collection and a guild id, the method does not throw: it takes
  \<^verbatim>\<open>this.commands\<close> and sends its projection, and the call is scoped to \<^verbatim>\<open>this.guildId\<close>, not
  global.
\<close>

theorem registerAllApplicationCommands_defaults:
  "registerAllApplicationCommands example_manager example_client None None =
     Some (Inr (Some example_remote_commands),
           [ApplicationCommandsSet example_projection (Some ''42''),
            GuildPermissionsSet ''42'' example_fullPermissions])"
  by (rule example_registerAll) simp

text \<open>
  C1, amended. When the collection passed is the manager's own (or none is passed, which selects
  it), its projection is not empty, the client emits \<open>ready\<close> and has its application, the call
  returns or throws after exactly one bulk replace call, whose data is the projection of that
  collection and whose scope is the guild id passed, else \<^verbatim>\<open>this.guildId\<close>, else global. The call
  throws \<open>Commands not found\<close> when no collection is passed and the manager has none.
\<close>

theorem registerAllApplicationCommands_own_collection:
  "(commands this = Some c \<and> (commands_arg = None \<or> commands_arg = Some c) \<and>
    getData this (ArgCollection c) = Inr (DataList ds) \<and> ds \<noteq> [] \<and>
    ready_emitted client \<and> application client = Some app \<longrightarrow>
      (\<exists>outcome calls.
          registerAllApplicationCommands this client commands_arg guildId_arg = Some (outcome, calls) \<and>
          filter is_ApplicationCommandsSet calls =
            [ApplicationCommandsSet ds
               (if truthy_string (case guildId_arg of None \<Rightarrow> guildId this | Some g \<Rightarrow> Some g)
                then (case guildId_arg of None \<Rightarrow> guildId this | Some g \<Rightarrow> Some g)
                else None)])) \<and>
   (commands this = None \<longrightarrow>
      registerAllApplicationCommands this client None guildId_arg =
        Some (Inl (Error ''Commands not found''), []))"
proof (intro conjI impI)
  assume "commands this = None"
  then show "registerAllApplicationCommands this client None guildId_arg =
        Some (Inl (Error ''Commands not found''), [])"
    by (simp add: registerAllApplicationCommands_def)
next
  assume a: "commands this = Some c \<and> (commands_arg = None \<or> commands_arg = Some c) \<and>
    getData this (ArgCollection c) = Inr (DataList ds) \<and> ds \<noteq> [] \<and>
    ready_emitted client \<and> application client = Some app"
  let ?scope = "if truthy_string (case guildId_arg of None \<Rightarrow> guildId this | Some g \<Rightarrow> Some g)
                then (case guildId_arg of None \<Rightarrow> guildId this | Some g \<Rightarrow> Some g)
                else None"
  from a have p: "(case commands_arg of None \<Rightarrow> commands this | Some c \<Rightarrow> Some c) = Some c"
    by auto
  from a have g: "getData this ArgUndefined = Inr (DataList ds)"
    by (simp add: getData_def)
  from a have r: "awaitReady client = Some True" by (simp add: awaitReady_def)
  define o2 where "o2 cmds = fst (registerPermissions this client (Some cmds) None GuildUndefined)"
    for cmds
  define calls2 where "calls2 cmds = snd (registerPermissions this client (Some cmds) None GuildUndefined)"
    for cmds
  have rp: "registerPermissions this client (Some cmds) None GuildUndefined = (o2 cmds, calls2 cmds)"
    for cmds
    by (simp add: o2_def calls2_def)
  have f: "filter is_ApplicationCommandsSet (calls2 cmds) = []" for cmds
    unfolding calls2_def by (rule registerPermissions_calls)
  show "\<exists>outcome calls.
          registerAllApplicationCommands this client commands_arg guildId_arg = Some (outcome, calls) \<and>
          filter is_ApplicationCommandsSet calls = [ApplicationCommandsSet ds ?scope]"
  proof (cases "commands_set app ds ?scope")
    case (Inl e)
    with a p g r show ?thesis
      by (simp add: registerAllApplicationCommands_def Let_def)
  next
    case (Inr cmds)
    show ?thesis
    proof (cases "truthy_boolean (applicationPermissions this)")
      case False
      with Inr a p g r show ?thesis
        by (simp add: registerAllApplicationCommands_def Let_def)
    next
      case True
      with Inr a p g r rp[of cmds] f[of cmds] show ?thesis
        by (cases "o2 cmds") (simp_all add: registerAllApplicationCommands_def Let_def)
    qed
  qed
qed

theorem registerAllApplicationCommands_own_collection_witness:
  "commands example_manager = Some (the (commands example_manager)) \<and>
   getData example_manager (ArgCollection (the (commands example_manager))) =
     Inr (DataList example_projection) \<and>
   example_projection \<noteq> [] \<and> ready_emitted example_client \<and>
   application example_client = Some example_application \<and>
   (\<exists>outcome calls.
       registerAllApplicationCommands example_manager example_client
         (Some (the (commands example_manager))) (Some ''42'') = Some (outcome, calls) \<and>
       filter is_ApplicationCommandsSet calls =
         [ApplicationCommandsSet example_projection (Some ''42'')]) \<and>
   commands (example_manager\<lparr> commands := None \<rparr>) = None \<and>
   registerAllApplicationCommands (example_manager\<lparr> commands := None \<rparr>) example_client None None =
     Some (Inl (Error ''Commands not found''), [])"
proof -
  have h1: "commands example_manager = Some (the (commands example_manager))"
    by (simp add: example_manager_def)
  have h2: "getData example_manager (ArgCollection (the (commands example_manager))) =
     Inr (DataList example_projection)"
    using example_getData by (simp add: getData_def example_manager_def)
  have h3: "example_projection \<noteq> []" by (simp add: example_projection_def)
  have h4: "ready_emitted example_client" by (simp add: example_client_def)
  have h5: "application example_client = Some example_application"
    by (simp add: example_client_def)
  have h6: "commands (example_manager\<lparr> commands := None \<rparr>) = None" by simp
  have t: "truthy_string (Some ''42'')" by (simp add: truthy_string_def)
  from registerAllApplicationCommands_own_collection
         [of example_manager "the (commands example_manager)" "Some (the (commands example_manager))"
             example_projection example_client example_application "Some ''42''"]
       h1 h2 h3 h4 h5
  have a: "\<exists>outcome calls.
       registerAllApplicationCommands example_manager example_client
         (Some (the (commands example_manager))) (Some ''42'') = Some (outcome, calls) \<and>
       filter is_ApplicationCommandsSet calls =
         [ApplicationCommandsSet example_projection (Some ''42'')]"
    by (simp add: t)
  from registerAllApplicationCommands_own_collection
         [of "example_manager\<lparr> commands := None \<rparr>" _ _ _ example_client _ None] h6
  have b: "registerAllApplicationCommands (example_manager\<lparr> commands := None \<rparr>) example_client None None =
     Some (Inl (Error ''Commands not found''), [])"
    by blast
  from h1 h2 h3 h4 h5 h6 a b show ?thesis by blast
qed

text \<open>
  C5. The projection is taken by \<^verbatim>\<open>this.getData()\<close>, not from the collection passed. Passed a
  collection that holds one message command, whose projection is empty, on a manager whose own
  collection projects to two entries, the method makes the bulk replace call and the permission
  call and returns the platform's commands.
\<close>

theorem registerAllApplicationCommands_ignores_argument:
  "getData example_manager (ArgCollection [(''help'', Command_constructor HelpCommand)]) =
     Inr (DataList []) \<and>
   registerAllApplicationCommands example_manager example_client
       (Some [(''help'', Command_constructor HelpCommand)]) None =
     Some (Inr (Some example_remote_commands),
           [ApplicationCommandsSet example_projection (Some ''42''),
            GuildPermissionsSet ''42'' example_fullPermissions])"
proof
  show "getData example_manager (ArgCollection [(''help'', Command_constructor HelpCommand)]) =
     Inr (DataList [])"
    by (simp add: getData_def Command_constructor_def HelpCommand_def)
  show "registerAllApplicationCommands example_manager example_client
       (Some [(''help'', Command_constructor HelpCommand)]) None =
     Some (Inr (Some example_remote_commands),
           [ApplicationCommandsSet example_projection (Some ''42''),
            GuildPermissionsSet ''42'' example_fullPermissions])"
    by (rule example_registerAll) simp
qed

section \<open>Properties of unregister, register and reload\<close>

text \<open>
  C8, as stated, fails for a command without a recorded path, such as one fresh from its
  constructor: the entry is removed, then \<^verbatim>\<open>require.resolve\<close> throws and nothing is returned.
\<close>

theorem unregister_without_path:
  "unregister (Command_constructor PingCommand) example_client example_modules =
     (Inl (TypeError ''The request argument must be of type string''),
      example_client\<lparr> collections_commands := Some [(''ban'', BanCommand_loaded)] \<rparr>,
      example_modules)"
  by (simp add: unregister_def require_resolve_def example_client_def Command_constructor_def
        PingCommand_def)

text \<open>
  C8, amended. For a command whose recorded path resolves to a module file, \<open>unregister\<close>
  returns \<open>true\<close>, invalidates the cache entry of that path and removes the entry keyed by the
  command's name from the client's collection, leaving the other keys as they are; when the name
  was not in the collection, or the client has no collection, the collection is unchanged and
  the result is \<open>true\<close> all the same.
\<close>

theorem unregister_with_path:
  assumes "path this = Some p" and "p \<in> dom (disk node)"
  shows "unregister this client node =
           (Inr True,
            (case collections_commands client of
               None \<Rightarrow> client
             | Some cs \<Rightarrow> client\<lparr> collections_commands := Some (Collection_delete (name this) cs) \<rparr>),
            node\<lparr> require_cache := (require_cache node)(p := None) \<rparr>) \<and>
         (\<forall>cs. collections_commands client = Some cs \<longrightarrow>
            Collection_get (Collection_delete (name this) cs) (name this) = None \<and>
            (\<forall>k. k \<noteq> name this \<longrightarrow>
               Collection_get (Collection_delete (name this) cs) k = Collection_get cs k) \<and>
            (Collection_get cs (name this) = None \<longrightarrow> Collection_delete (name this) cs = cs))"
  using assms
  by (auto simp: unregister_def require_resolve_def Collection_get_delete Collection_delete_absent
           split: option.splits)

theorem unregister_with_path_witness:
  "path BanCommand_loaded = Some ''/bot/commands/ban.js'' \<and>
   ''/bot/commands/ban.js'' \<in> dom (disk example_modules) \<and>
   unregister BanCommand_loaded example_client example_modules =
      (Inr True,
       example_client\<lparr> collections_commands :=
         Some [(''test-selectmenus'', Command_constructor PingCommand)] \<rparr>,
       example_modules\<lparr> require_cache := Map.empty \<rparr>)"
proof -
  have p: "path BanCommand_loaded = Some ''/bot/commands/ban.js''"
    by (simp add: BanCommand_loaded_def)
  have d: "''/bot/commands/ban.js'' \<in> dom (disk example_modules)"
    by (simp add: example_modules_def)
  have n: "name BanCommand_loaded = ''ban''"
    by (simp add: BanCommand_loaded_def Command_constructor_def BanCommand_def)
  have c: "(require_cache example_modules)(''/bot/commands/ban.js'' := None) = Map.empty"
    by (simp add: example_modules_def)
  have cc: "collections_commands example_client =
      Some [(''test-selectmenus'', Command_constructor PingCommand), (''ban'', BanCommand_loaded)]"
    by (simp add: example_client_def)
  have u: "unregister BanCommand_loaded example_client example_modules =
      (Inr True,
       example_client\<lparr> collections_commands :=
         Some [(''test-selectmenus'', Command_constructor PingCommand)] \<rparr>,
       example_modules\<lparr> require_cache := Map.empty \<rparr>)"
    using unregister_with_path [OF p d, of example_client, THEN conjunct1]
    by (simp only: n c cc option.case Collection_delete.simps) simp
  from p d u show ?thesis by blast
qed

text \<open>
  C10. When the client has no command collection and the module at the recorded path
  default-exports a command class, \<open>register\<close> returns a new collection that holds only the
  fresh instance under its name, and the client is returned as it was: its collection is still
  undefined.
\<close>

theorem register_without_collection:
  assumes "collections_commands client = None"
    and "path this = Some p"
    and "fst (import_module node (Some p)) = Inr (Module (Some d))"
  shows "register this client node =
           (Inr [(name (Command_constructor d), Command_constructor d)], client,
            snd (import_module node (Some p)))"
  using assms by (cases "import_module node (Some p)") (simp add: register_def Let_def)

theorem register_without_collection_witness:
  "collections_commands (example_client\<lparr> collections_commands := None \<rparr>) = None \<and>
   path BanCommand_loaded = Some ''/bot/commands/ban.js'' \<and>
   fst (import_module example_modules (Some ''/bot/commands/ban.js'')) = Inr (Module (Some BanCommand)) \<and>
   register BanCommand_loaded (example_client\<lparr> collections_commands := None \<rparr>) example_modules =
     (Inr [(''ban'', Command_constructor BanCommand)],
      example_client\<lparr> collections_commands := None \<rparr>, example_modules)"
proof -
  have c: "collections_commands (example_client\<lparr> collections_commands := None \<rparr>) = None" by simp
  have p: "path BanCommand_loaded = Some ''/bot/commands/ban.js''"
    by (simp add: BanCommand_loaded_def)
  have i: "import_module example_modules (Some ''/bot/commands/ban.js'') =
             (Inr (Module (Some BanCommand)), example_modules)"
    by (simp add: import_module_def example_modules_def)
  then have i1: "fst (import_module example_modules (Some ''/bot/commands/ban.js'')) = Inr (Module (Some BanCommand))"
    by simp
  have n: "name (Command_constructor BanCommand) = ''ban''"
    by (simp add: Command_constructor_def BanCommand_def)
  from register_without_collection [OF c p i1] c p i1 show ?thesis
    by (simp only: n i snd_conv)
qed

lemma import_after_invalidate:
  "disk node p = Some m \<Longrightarrow>
   import_module (node\<lparr> require_cache := (require_cache node)(p := None) \<rparr>) (Some p) =
     (Inr m, node\<lparr> require_cache := (require_cache node)(p \<mapsto> m) \<rparr>)"
  by (simp add: import_module_def)

text \<open>
  C7, as stated, fails on what the file at the recorded path holds when \<open>reload\<close> runs. After an
  edit that renames the command, the collection \<open>reload\<close> yields has the new name and no
  instance with the name of the original; with the file deleted, \<open>reload\<close> throws from
  \<^verbatim>\<open>require.resolve\<close> and yields nothing.
\<close>

theorem reload_renamed_module:
  "path BanCommand_loaded = Some ''/bot/commands/ban.js'' \<and>
   name BanCommand_loaded = ''ban'' \<and>
   fst (reload BanCommand_loaded example_client example_modules_renamed) =
     Inr (Some [(''test-selectmenus'', Command_constructor PingCommand),
                (''kick'', Command_constructor KickCommand)]) \<and>
   map (\<lambda>(k, c). name c)
     [(''test-selectmenus'', Command_constructor PingCommand),
      (''kick'', Command_constructor KickCommand)] = [''test-selectmenus'', ''kick''] \<and>
   fst (reload BanCommand_loaded example_client example_modules_gone) =
     Inl (Error ''Cannot find module'')"
proof -
  have p: "path BanCommand_loaded = Some ''/bot/commands/ban.js''"
    by (simp add: BanCommand_loaded_def)
  have n: "name BanCommand_loaded = ''ban''"
    by (simp add: BanCommand_loaded_def Command_constructor_name BanCommand_def)
  have cc: "collections_commands example_client =
      Some [(''test-selectmenus'', Command_constructor PingCommand), (''ban'', BanCommand_loaded)]"
    by (simp add: example_client_def)
  have k: "name (Command_constructor KickCommand) = ''kick''"
    by (simp add: Command_constructor_name KickCommand_def)
  have r: "fst (reload BanCommand_loaded example_client example_modules_renamed) =
     Inr (Some [(''test-selectmenus'', Command_constructor PingCommand),
                (''kick'', Command_constructor KickCommand)])"
    by (simp add: reload_def unregister_def register_def require_resolve_def import_module_def
          truthy_string_def Let_def p n cc k example_modules_renamed_def)
  have m: "map (\<lambda>(k, c). name c)
     [(''test-selectmenus'', Command_constructor PingCommand),
      (''kick'', Command_constructor KickCommand)] = [''test-selectmenus'', ''kick'']"
    by (simp add: Command_constructor_name KickCommand_def PingCommand_def)
  have g: "fst (reload BanCommand_loaded example_client example_modules_gone) =
     Inl (Error ''Cannot find module'')"
    by (simp add: reload_def unregister_def require_resolve_def truthy_string_def p n cc
          example_modules_gone_def)
  from p n r m g show ?thesis by blast
qed

text \<open>
  C7, amended. \<open>reload\<close> returns \<^verbatim>\<open>null\<close> and changes neither the client nor the modules when the
  command has no recorded path. With a recorded path whose file default-exports a command
  class, \<open>reload\<close> is \<open>unregister\<close> followed by \<open>register\<close>: the entry under the original's name is
  removed, the cache entry of the path is replaced by the module read again, and the collection
  yielded holds the fresh instance under the name the module declares. That collection is the
  client's collection from then on when the client had one, and a new one the client does not
  keep otherwise. Under the original's name it holds the fresh instance when the module
  declares that name and nothing when it declares another.
\<close>

theorem reload_command:
  "(\<not> truthy_string (path this) \<longrightarrow> reload this client node = (Inr None, client, node)) \<and>
   (path this = Some p \<and> p \<noteq> [] \<and> disk node p = Some (Module (Some d)) \<longrightarrow>
      (let AC = Command_constructor d;
           client' = (case collections_commands client of
                        None \<Rightarrow> client
                      | Some cs0 \<Rightarrow>
                          client\<lparr> collections_commands := Some (Collection_delete (name this) cs0) \<rparr>);
           node' = node\<lparr> require_cache := (require_cache node)(p := None) \<rparr>;
           cs = (case collections_commands client of
                   None \<Rightarrow> [(name AC, AC)]
                 | Some cs0 \<Rightarrow> Collection_set (name AC) AC (Collection_delete (name this) cs0));
           client'' = (case collections_commands client of
                         None \<Rightarrow> client
                       | Some cs0 \<Rightarrow> client\<lparr> collections_commands := Some cs \<rparr>);
           node'' = node\<lparr> require_cache := (require_cache node)(p \<mapsto> Module (Some d)) \<rparr>
       in unregister this client node = (Inr True, client', node') \<and>
          register this client' node' = (Inr cs, client'', node'') \<and>
          reload this client node = (Inr (Some cs), client'', node'') \<and>
          name AC = data_name d \<and>
          Collection_get cs (data_name d) = Some AC \<and>
          (data_name d \<noteq> name this \<longrightarrow> Collection_get cs (name this) = None)))"
proof (intro conjI impI)
  assume "\<not> truthy_string (path this)"
  then show "reload this client node = (Inr None, client, node)"
    by (simp add: reload_def)
next
  assume a: "path this = Some p \<and> p \<noteq> [] \<and> disk node p = Some (Module (Some d))"
  let ?AC = "Command_constructor d"
  let ?n1 = "node\<lparr> require_cache := (require_cache node)(p := None) \<rparr>"
  let ?n2 = "node\<lparr> require_cache := (require_cache node)(p \<mapsto> Module (Some d)) \<rparr>"
  have nm: "name ?AC = data_name d" by (rule Command_constructor_name)
  from a have i: "import_module ?n1 (path this) = (Inr (Module (Some d)), ?n2)"
    by (simp add: import_after_invalidate)
  show "let AC = Command_constructor d;
           client' = (case collections_commands client of
                        None \<Rightarrow> client
                      | Some cs0 \<Rightarrow>
                          client\<lparr> collections_commands := Some (Collection_delete (name this) cs0) \<rparr>);
           node' = node\<lparr> require_cache := (require_cache node)(p := None) \<rparr>;
           cs = (case collections_commands client of
                   None \<Rightarrow> [(name AC, AC)]
                 | Some cs0 \<Rightarrow> Collection_set (name AC) AC (Collection_delete (name this) cs0));
           client'' = (case collections_commands client of
                         None \<Rightarrow> client
                       | Some cs0 \<Rightarrow> client\<lparr> collections_commands := Some cs \<rparr>);
           node'' = node\<lparr> require_cache := (require_cache node)(p \<mapsto> Module (Some d)) \<rparr>
       in unregister this client node = (Inr True, client', node') \<and>
          register this client' node' = (Inr cs, client'', node'') \<and>
          reload this client node = (Inr (Some cs), client'', node'') \<and>
          name AC = data_name d \<and>
          Collection_get cs (data_name d) = Some AC \<and>
          (data_name d \<noteq> name this \<longrightarrow> Collection_get cs (name this) = None)"
  proof (cases "collections_commands client")
    case None
    from a None have u: "unregister this client node = (Inr True, client, ?n1)"
      by (auto simp: unregister_def require_resolve_def)
    from None i have r: "register this client ?n1 = (Inr [(name ?AC, ?AC)], client, ?n2)"
      by (simp add: register_def Let_def)
    from a u r have rl: "reload this client node = (Inr (Some [(name ?AC, ?AC)]), client, ?n2)"
      by (simp add: reload_def truthy_string_def)
    from None u r rl nm show ?thesis by (simp add: Let_def)
  next
    case (Some cs0)
    let ?c1 = "client\<lparr> collections_commands := Some (Collection_delete (name this) cs0) \<rparr>"
    let ?cs = "Collection_set (name ?AC) ?AC (Collection_delete (name this) cs0)"
    from a Some have u: "unregister this client node = (Inr True, ?c1, ?n1)"
      by (auto simp: unregister_def require_resolve_def)
    from i have r: "register this ?c1 ?n1 = (Inr ?cs, client\<lparr> collections_commands := Some ?cs \<rparr>, ?n2)"
      by (simp add: register_def Let_def)
    from a u r have rl: "reload this client node =
        (Inr (Some ?cs), client\<lparr> collections_commands := Some ?cs \<rparr>, ?n2)"
      by (simp add: reload_def truthy_string_def)
    have g: "Collection_get ?cs (data_name d) = Some ?AC"
      by (simp add: Collection_get_set nm)
    have h: "data_name d \<noteq> name this \<longrightarrow> Collection_get ?cs (name this) = None"
      by (simp add: Collection_get_set Collection_get_delete nm)
    from Some u r rl nm g h show ?thesis by (simp add: Let_def)
  qed
qed

theorem reload_command_witness:
  "\<not> truthy_string (path (Command_constructor PingCommand)) \<and>
   reload (Command_constructor PingCommand) example_client example_modules =
     (Inr None, example_client, example_modules) \<and>
   path BanCommand_loaded = Some ''/bot/commands/ban.js'' \<and>
   ''/bot/commands/ban.js'' \<noteq> [] \<and>
   disk example_modules_renamed ''/bot/commands/ban.js'' = Some (Module (Some KickCommand)) \<and>
   fst (reload BanCommand_loaded example_client example_modules_renamed) =
     Inr (Some [(''test-selectmenus'', Command_constructor PingCommand),
                (''kick'', Command_constructor KickCommand)]) \<and>
   collections_commands (fst (snd (reload BanCommand_loaded example_client example_modules_renamed))) =
     Some [(''test-selectmenus'', Command_constructor PingCommand),
           (''kick'', Command_constructor KickCommand)] \<and>
   require_cache (snd (snd (reload BanCommand_loaded example_client example_modules_renamed)))
     ''/bot/commands/ban.js'' = Some (Module (Some KickCommand))"
proof -
  have h1: "\<not> truthy_string (path (Command_constructor PingCommand))"
    by (simp add: truthy_string_def Command_constructor_path)
  have h2: "path BanCommand_loaded = Some ''/bot/commands/ban.js''"
    by (simp add: BanCommand_loaded_def)
  have h3: "''/bot/commands/ban.js'' \<noteq> []" by simp
  have h4: "disk example_modules_renamed ''/bot/commands/ban.js'' = Some (Module (Some KickCommand))"
    by (simp add: example_modules_renamed_def)
  have n: "name BanCommand_loaded = ''ban''"
    by (simp add: BanCommand_loaded_def Command_constructor_name BanCommand_def)
  have k: "name (Command_constructor KickCommand) = ''kick''"
    by (simp add: Command_constructor_name KickCommand_def)
  have cc: "collections_commands example_client =
      Some [(''test-selectmenus'', Command_constructor PingCommand), (''ban'', BanCommand_loaded)]"
    by (simp add: example_client_def)
  from reload_command [of "Command_constructor PingCommand" example_client example_modules] h1
  have a: "reload (Command_constructor PingCommand) example_client example_modules =
     (Inr None, example_client, example_modules)"
    by blast
  from reload_command [of BanCommand_loaded example_client example_modules_renamed
                          "''/bot/commands/ban.js''" KickCommand] h2 h3 h4
  have b: "reload BanCommand_loaded example_client example_modules_renamed =
     (Inr (Some [(''test-selectmenus'', Command_constructor PingCommand),
                 (''kick'', Command_constructor KickCommand)]),
      example_client\<lparr> collections_commands :=
        Some [(''test-selectmenus'', Command_constructor PingCommand),
              (''kick'', Command_constructor KickCommand)] \<rparr>,
      example_modules_renamed\<lparr> require_cache :=
        (require_cache example_modules_renamed)(''/bot/commands/ban.js'' \<mapsto> Module (Some KickCommand)) \<rparr>)"
    by (simp add: Let_def cc n k)
  from h1 h2 h3 h4 a show ?thesis by (simp add: b)
qed

section \<open>Properties of EventsHandler.registerAll\<close>

lemma import_module_stable:
  "import_module node r = (x, node') \<Longrightarrow>
   fst (import_module node' r') = fst (import_module node r')"
  by (auto simp: import_module_def split: option.splits if_splits)

text \<open>A run of the loop over importable paths ends without an error and keeps the keys distinct.\<close>

lemma registerAll_loop_importable:
  assumes "\<forall>q \<in> set ps. \<exists>m. fst (import_module node (Some q)) = Inr m"
  shows "\<exists>evts' node'. registerAll_loop ps evts node = (None, evts', node') \<and>
           (distinct (map fst evts) \<longrightarrow> distinct (map fst evts')) \<and>
           (\<forall>r. fst (import_module node' r) = fst (import_module node r))"
  using assms
proof (induction ps arbitrary: evts node)
  case Nil
  then show ?case by simp
next
  case (Cons q ps)
  obtain m node1 where i: "import_module node (Some q) = (Inr m, node1)"
    using Cons.prems by (cases "import_module node (Some q)") auto
  have st: "\<And>r. fst (import_module node1 r) = fst (import_module node r)"
    using import_module_stable[OF i] .
  have rest: "\<forall>q \<in> set ps. \<exists>m. fst (import_module node1 (Some q)) = Inr m"
    using Cons.prems by (simp add: st)
  show ?case
  proof (cases "\<exists>inst n. default_export m = Some inst \<and> event_name inst = Some n \<and> n \<noteq> []")
    case True
    then obtain inst n where d: "default_export m = Some inst" "event_name inst = Some n" "n \<noteq> []"
      by blast
    let ?evts1 = "Collection_set n (inst\<lparr> event_path := Some q \<rparr>) evts"
    from Cons.IH[OF rest, of ?evts1] obtain evts' node' where
      r: "registerAll_loop ps ?evts1 node1 = (None, evts', node')"
         "distinct (map fst ?evts1) \<longrightarrow> distinct (map fst evts')"
         "\<forall>r. fst (import_module node' r) = fst (import_module node1 r)"
      by blast
    from i d r show ?thesis by (simp add: st Collection_set_distinct)
  next
    case False
    from Cons.IH[OF rest, of evts] obtain evts' node' where
      r: "registerAll_loop ps evts node1 = (None, evts', node')"
         "distinct (map fst evts) \<longrightarrow> distinct (map fst evts')"
         "\<forall>r. fst (import_module node' r) = fst (import_module node1 r)"
      by blast
    from False i have "registerAll_loop (q # ps) evts node = registerAll_loop ps evts node1"
      by (auto split: option.splits)
    with r show ?thesis by (simp add: st)
  qed
qed

text \<open>Paths whose modules do not declare the key \<open>k\<close> leave the entry of \<open>k\<close> as it is.\<close>

lemma registerAll_loop_other_keys:
  assumes "\<forall>q \<in> set qs. \<exists>m. fst (import_module node (Some q)) = Inr m"
    and "\<forall>q \<in> set qs. \<forall>i. fst (import_module node (Some q)) = Inr (Module (Some i))
            \<longrightarrow> event_name i \<noteq> Some k"
  shows "\<exists>evts' node'. registerAll_loop qs evts node = (None, evts', node') \<and>
           Collection_get evts' k = Collection_get evts k \<and>
           filter (\<lambda>(k', v). k' = k) evts' = filter (\<lambda>(k', v). k' = k) evts"
  using assms
proof (induction qs arbitrary: evts node)
  case Nil
  then show ?case by simp
next
  case (Cons q qs)
  obtain m node1 where i: "import_module node (Some q) = (Inr m, node1)"
    using Cons.prems(1) by (cases "import_module node (Some q)") auto
  have st: "\<And>r. fst (import_module node1 r) = fst (import_module node r)"
    using import_module_stable[OF i] .
  have rest1: "\<forall>q \<in> set qs. \<exists>m. fst (import_module node1 (Some q)) = Inr m"
    using Cons.prems(1) by (simp add: st)
  have rest2: "\<forall>q \<in> set qs. \<forall>i. fst (import_module node1 (Some q)) = Inr (Module (Some i))
            \<longrightarrow> event_name i \<noteq> Some k"
    using Cons.prems(2) by (simp add: st)
  show ?case
  proof (cases "\<exists>inst n. default_export m = Some inst \<and> event_name inst = Some n \<and> n \<noteq> []")
    case True
    then obtain inst n where d: "default_export m = Some inst" "event_name inst = Some n" "n \<noteq> []"
      by blast
    from d(1) have m: "m = Module (Some inst)" by (cases m) simp
    have nk: "n \<noteq> k" using Cons.prems(2) i m d(2) by auto
    let ?evts1 = "Collection_set n (inst\<lparr> event_path := Some q \<rparr>) evts"
    from Cons.IH[OF rest1 rest2, of ?evts1] obtain evts' node' where
      r: "registerAll_loop qs ?evts1 node1 = (None, evts', node')"
         "Collection_get evts' k = Collection_get ?evts1 k"
         "filter (\<lambda>(k', v). k' = k) evts' = filter (\<lambda>(k', v). k' = k) ?evts1"
      by blast
    from i d r nk show ?thesis
      by (simp add: Collection_get_set Collection_set_filter_other)
  next
    case False
    from Cons.IH[OF rest1 rest2, of evts] obtain evts' node' where
      r: "registerAll_loop qs evts node1 = (None, evts', node')"
         "Collection_get evts' k = Collection_get evts k"
         "filter (\<lambda>(k', v). k' = k) evts' = filter (\<lambda>(k', v). k' = k) evts"
      by blast
    from False i have "registerAll_loop (q # qs) evts node = registerAll_loop qs evts node1"
      by (auto split: option.splits)
    with r show ?thesis by simp
  qed
qed

lemma registerAll_loop_append:
  "registerAll_loop ps evts node = (None, evts', node') \<Longrightarrow>
   registerAll_loop (ps @ qs) evts node = registerAll_loop qs evts' node'"
  by (induction ps arbitrary: evts node)
     (auto split: prod.splits sum.splits option.splits if_splits)

lemma registerAll_loop_later_wins:
  assumes imp: "\<forall>q \<in> set (ps @ p # qs). \<exists>m. fst (import_module node (Some q)) = Inr m"
    and later: "fst (import_module node (Some p)) = Inr (Module (Some inst))"
      "event_name inst = Some k" "k \<noteq> []"
    and nolater: "\<forall>q \<in> set qs. \<forall>i. fst (import_module node (Some q)) = Inr (Module (Some i))
            \<longrightarrow> event_name i \<noteq> Some k"
    and dist: "distinct (map fst evts)"
  shows "\<exists>evts' node'. registerAll_loop (ps @ p # qs) evts node = (None, evts', node') \<and>
           Collection_get evts' k = Some (inst\<lparr> event_path := Some p \<rparr>) \<and>
           filter (\<lambda>(k', v). k' = k) evts' = [(k, inst\<lparr> event_path := Some p \<rparr>)]"
proof -
  from imp have ips: "\<forall>q \<in> set ps. \<exists>m. fst (import_module node (Some q)) = Inr m" by simp
  from registerAll_loop_importable[OF ips, of evts] dist obtain evts1 node1 where
    a: "registerAll_loop ps evts node = (None, evts1, node1)"
       "distinct (map fst evts1)"
       "\<forall>r. fst (import_module node1 r) = fst (import_module node r)"
    by blast
  have "fst (import_module node1 (Some p)) = Inr (Module (Some inst))"
    using later(1) a(3) by simp
  then obtain node2 where i: "import_module node1 (Some p) = (Inr (Module (Some inst)), node2)"
    by (cases "import_module node1 (Some p)") auto
  have st: "\<And>r. fst (import_module node2 r) = fst (import_module node r)"
    using import_module_stable[OF i] a(3) by simp
  let ?evts2 = "Collection_set k (inst\<lparr> event_path := Some p \<rparr>) evts1"
  have step: "registerAll_loop (p # qs) evts1 node1 = registerAll_loop qs ?evts2 node2"
    using i later by simp
  have q1: "\<forall>q \<in> set qs. \<exists>m. fst (import_module node2 (Some q)) = Inr m"
    using imp by (simp add: st)
  have q2: "\<forall>q \<in> set qs. \<forall>i. fst (import_module node2 (Some q)) = Inr (Module (Some i))
            \<longrightarrow> event_name i \<noteq> Some k"
    using nolater by (simp add: st)
  from registerAll_loop_other_keys[OF q1 q2, of ?evts2] obtain evts' node' where
    r: "registerAll_loop qs ?evts2 node2 = (None, evts', node')"
       "Collection_get evts' k = Collection_get ?evts2 k"
       "filter (\<lambda>(k', v). k' = k) evts' = filter (\<lambda>(k', v). k' = k) ?evts2"
    by blast
  have "registerAll_loop (ps @ p # qs) evts node = (None, evts', node')"
    using registerAll_loop_append[OF a(1), of "p # qs"] step r(1) by simp
  moreover have "Collection_get evts' k = Some (inst\<lparr> event_path := Some p \<rparr>)"
    using r(2) by (simp add: Collection_get_set)
  moreover have "filter (\<lambda>(k', v). k' = k) evts' = [(k, inst\<lparr> event_path := Some p \<rparr>)]"
    using r(3) a(2) by (simp add: Collection_set_filter_same)
  ultimately show ?thesis by blast
qed

text \<open>
  C6. Let the traversal meet the path \<open>p\<close> with paths \<open>ps\<close> before it and \<open>qs\<close> after it, every
  module importable, the module at \<open>p\<close> building an instance that declares the key \<open>k\<close>, and no
  module met later declaring \<open>k\<close>. Then, whatever the modules met earlier declare, the scan
  succeeds and the collection maps \<open>k\<close> to the instance of \<open>p\<close>, which is the only entry under
  \<open>k\<close>: an instance that declared \<open>k\<close> earlier is gone.
\<close>

theorem registerAll_later_wins:
  assumes "readDirAndPush (join main_path (dir this)) tree = ps @ p # qs"
    and "\<forall>q \<in> set (ps @ p # qs). \<exists>m. fst (import_module node (Some q)) = Inr m"
    and "fst (import_module node (Some p)) = Inr (Module (Some inst))"
    and "event_name inst = Some k" and "k \<noteq> []"
    and "\<forall>q \<in> set qs. \<forall>i. fst (import_module node (Some q)) = Inr (Module (Some i))
            \<longrightarrow> event_name i \<noteq> Some k"
    and "distinct (map fst (events client))"
  shows "\<exists>evts node'. registerAll this main_path tree client node =
             (Inr evts, client\<lparr> events := evts \<rparr>, node') \<and>
           Collection_get evts k = Some (inst\<lparr> event_path := Some p \<rparr>) \<and>
           filter (\<lambda>(k', v). k' = k) evts = [(k, inst\<lparr> event_path := Some p \<rparr>)]"
proof -
  from registerAll_loop_later_wins[OF assms(2-7)] obtain evts node' where
    "registerAll_loop (ps @ p # qs) (events client) node = (None, evts, node')"
    "Collection_get evts k = Some (inst\<lparr> event_path := Some p \<rparr>)"
    "filter (\<lambda>(k', v). k' = k) evts = [(k, inst\<lparr> event_path := Some p \<rparr>)]"
    by blast
  with assms(1) show ?thesis by (simp add: registerAll_def)
qed

lemma example_paths:
  "readDirAndPush (join ''/bot'' (dir example_handler)) example_events_tree =
     [''/bot/events/ready.js''] @ ''/bot/events/client/ready.js'' # []"
  by (simp add: readDirAndPush_def join_def example_handler_def example_events_tree_def)

theorem registerAll_later_wins_witness:
  "readDirAndPush (join ''/bot'' (dir example_handler)) example_events_tree =
     [''/bot/events/ready.js''] @ ''/bot/events/client/ready.js'' # [] \<and>
   fst (import_module example_event_modules (Some ''/bot/events/ready.js'')) =
     Inr (Module (Some \<lparr> event_name = Some ''ready'', event_path = None, event_once = False \<rparr>)) \<and>
   fst (import_module example_event_modules (Some ''/bot/events/client/ready.js'')) =
     Inr (Module (Some \<lparr> event_name = Some ''ready'', event_path = None, event_once = True \<rparr>)) \<and>
   distinct (map fst (events example_client)) \<and>
   (\<exists>evts node'.
       registerAll example_handler ''/bot'' example_events_tree example_client example_event_modules =
         (Inr evts, example_client\<lparr> events := evts \<rparr>, node') \<and>
       Collection_get evts ''ready'' =
         Some \<lparr> event_name = Some ''ready'', event_path = Some ''/bot/events/client/ready.js'',
                event_once = True \<rparr> \<and>
       filter (\<lambda>(k', v). k' = ''ready'') evts =
         [(''ready'', \<lparr> event_name = Some ''ready'', event_path = Some ''/bot/events/client/ready.js'',
                         event_once = True \<rparr>)])"
proof -
  let ?first = "\<lparr> event_name = Some ''ready'', event_path = None, event_once = False \<rparr>"
  let ?second = "\<lparr> event_name = Some ''ready'', event_path = None, event_once = True \<rparr>"
  have i1: "fst (import_module example_event_modules (Some ''/bot/events/ready.js'')) =
     Inr (Module (Some ?first))"
    by (simp add: import_module_def example_event_modules_def)
  have i2: "fst (import_module example_event_modules (Some ''/bot/events/client/ready.js'')) =
     Inr (Module (Some ?second))"
    by (simp add: import_module_def example_event_modules_def)
  have h2: "\<forall>q \<in> set ([''/bot/events/ready.js''] @ ''/bot/events/client/ready.js'' # []).
      \<exists>m. fst (import_module example_event_modules (Some q)) = Inr m"
    using i1 i2 by simp
  have h4: "event_name ?second = Some ''ready''" by simp
  have h5: "''ready'' \<noteq> []" by simp
  have h6: "\<forall>q \<in> set []. \<forall>i. fst (import_module example_event_modules (Some q)) = Inr (Module (Some i))
      \<longrightarrow> event_name i \<noteq> Some ''ready''"
    by simp
  have h7: "distinct (map fst (events example_client))" by (simp add: example_client_def)
  from registerAll_later_wins [OF example_paths h2 i2 h4 h5 h6 h7] example_paths i1 i2 h7
  show ?thesis by simp
qed

end
